theory Spec2Isabelle
  imports Complex_Main
begin

section \<open>JavaScript numbers\<close>

text \<open>
  The prediction engine of \<^verbatim>\<open>src/components/hero.tsx\<close> computes with JavaScript
  numbers. A number is modelled as a real, extended by the three special values the code
  can produce and observe: \<open>NaN\<close>, \<open>Infinity\<close> and \<open>-Infinity\<close>. Finite arithmetic is exact
  (rounding and overflow of doubles are not modelled) and zero carries no sign; every
  zero divisor in the source is a non-negative quantity (a sum of squares, \<open>n - p - 1\<close>).
\<close>

datatype number = NaN | PInf | NInf | Fin real

instantiation number :: "{uminus, plus, minus, times, inverse, ord}"
begin

fun uminus_number :: "number \<Rightarrow> number" where
  "uminus_number (Fin a) = Fin (- a)"
| "uminus_number PInf = NInf"
| "uminus_number NInf = PInf"
| "uminus_number NaN = NaN"

fun plus_number :: "number \<Rightarrow> number \<Rightarrow> number" where
  "plus_number (Fin a) (Fin b) = Fin (a + b)"
| "plus_number NaN _ = NaN"
| "plus_number _ NaN = NaN"
| "plus_number PInf NInf = NaN"
| "plus_number NInf PInf = NaN"
| "plus_number PInf _ = PInf"
| "plus_number _ PInf = PInf"
| "plus_number NInf _ = NInf"
| "plus_number _ NInf = NInf"

definition minus_number :: "number \<Rightarrow> number \<Rightarrow> number" where
  "minus_number x y = x + (- y)"

fun times_number :: "number \<Rightarrow> number \<Rightarrow> number" where
  "times_number (Fin a) (Fin b) = Fin (a * b)"
| "times_number NaN _ = NaN"
| "times_number _ NaN = NaN"
| "times_number PInf (Fin b) = (if b = 0 then NaN else if 0 < b then PInf else NInf)"
| "times_number NInf (Fin b) = (if b = 0 then NaN else if 0 < b then NInf else PInf)"
| "times_number (Fin a) PInf = (if a = 0 then NaN else if 0 < a then PInf else NInf)"
| "times_number (Fin a) NInf = (if a = 0 then NaN else if 0 < a then NInf else PInf)"
| "times_number PInf PInf = PInf"
| "times_number PInf NInf = NInf"
| "times_number NInf PInf = NInf"
| "times_number NInf NInf = PInf"

fun divide_number :: "number \<Rightarrow> number \<Rightarrow> number" where
  "divide_number (Fin a) (Fin b) =
     (if b = 0 then (if a = 0 then NaN else if 0 < a then PInf else NInf)
      else Fin (a / b))"
| "divide_number NaN _ = NaN"
| "divide_number _ NaN = NaN"
| "divide_number (Fin a) PInf = Fin 0"
| "divide_number (Fin a) NInf = Fin 0"
| "divide_number PInf (Fin b) = (if 0 \<le> b then PInf else NInf)"
| "divide_number NInf (Fin b) = (if 0 \<le> b then NInf else PInf)"
| "divide_number PInf _ = NaN"
| "divide_number NInf _ = NaN"

definition inverse_number :: "number \<Rightarrow> number" where
  "inverse_number x = divide (Fin 1) x"

text \<open>The comparisons \<^verbatim>\<open><\<close> and \<^verbatim>\<open><=\<close>: false as soon as one side is \<open>NaN\<close>.\<close>

fun less_number :: "number \<Rightarrow> number \<Rightarrow> bool" where
  "less_number (Fin a) (Fin b) = (a < b)"
| "less_number NaN _ = False"
| "less_number _ NaN = False"
| "less_number _ NInf = False"
| "less_number PInf _ = False"
| "less_number NInf _ = True"
| "less_number _ PInf = True"

fun less_eq_number :: "number \<Rightarrow> number \<Rightarrow> bool" where
  "less_eq_number (Fin a) (Fin b) = (a \<le> b)"
| "less_eq_number NaN _ = False"
| "less_eq_number _ NaN = False"
| "less_eq_number NInf _ = True"
| "less_eq_number _ PInf = True"
| "less_eq_number _ NInf = False"
| "less_eq_number PInf _ = False"

instance ..

end

text \<open>\<^verbatim>\<open>isNaN\<close> and \<^verbatim>\<open>Number.isFinite\<close>.\<close>

fun isNaN :: "number \<Rightarrow> bool" where
  "isNaN NaN = True"
| "isNaN _ = False"

fun isFinite :: "number \<Rightarrow> bool" where
  "isFinite (Fin a) = True"
| "isFinite _ = False"

text \<open>\<^verbatim>\<open>Math.max(a, b)\<close> and \<^verbatim>\<open>Math.min(a, b)\<close>: \<open>NaN\<close> as soon as one argument is.\<close>

definition Math_max :: "number \<Rightarrow> number \<Rightarrow> number" where
  "Math_max x y = (if isNaN x \<or> isNaN y then NaN else if x < y then y else x)"

definition Math_min :: "number \<Rightarrow> number \<Rightarrow> number" where
  "Math_min x y = (if isNaN x \<or> isNaN y then NaN else if y < x then y else x)"

text \<open>
  The spread forms \<^verbatim>\<open>Math.max(...xs)\<close> and \<^verbatim>\<open>Math.min(...xs)\<close>: with no argument they
  are \<open>-Infinity\<close> and \<open>Infinity\<close>.
\<close>

definition Math_max_list :: "number list \<Rightarrow> number" where
  "Math_max_list xs = foldl Math_max NInf xs"

definition Math_min_list :: "number list \<Rightarrow> number" where
  "Math_min_list xs = foldl Math_min PInf xs"

text \<open>
  \<^verbatim>\<open>Math.pow(x, e)\<close> for a finite exponent \<open>e\<close> (every exponent in the source is a literal:
  \<open>0.8\<close>, \<open>0.7\<close> and \<open>2\<close>). A negative base with a fractional exponent gives \<open>NaN\<close>.
\<close>

definition is_integer :: "real \<Rightarrow> bool" where
  "is_integer e = (e = of_int \<lfloor>e\<rfloor>)"

definition Math_pow :: "number \<Rightarrow> real \<Rightarrow> number" where
  "Math_pow x e =
     (if e = 0 then Fin 1
      else case x of
        NaN \<Rightarrow> NaN
      | PInf \<Rightarrow> (if 0 < e then PInf else Fin 0)
      | NInf \<Rightarrow> (if 0 < e then (if is_integer e \<and> odd \<lfloor>e\<rfloor> then NInf else PInf) else Fin 0)
      | Fin a \<Rightarrow>
          (if 0 < a then Fin (a powr e)
           else if a = 0 then (if 0 < e then Fin 0 else PInf)
           else if is_integer e then
             (if even \<lfloor>e\<rfloor> then Fin ((- a) powr e) else Fin (- ((- a) powr e)))
           else NaN))"

section \<open>Data model\<close>

text \<open>
  \<^verbatim>\<open>TemperatureData\<close>: one row of the historical series. The source keeps \<open>year\<close> as a
  decimal string and reads it with \<^verbatim>\<open>parseInt\<close>/\<^verbatim>\<open>Number\<close>; the model keeps the integer. The
  two temperatures are JSON numbers, hence finite.
\<close>

record TemperatureData =
  year :: int
  annual_mean :: real
  five_year_smooth :: real

text \<open>\<^verbatim>\<open>type ModelType = "polynomial" | "moving-average" | "linear"\<close>\<close>

datatype ModelType = Polynomial | MovingAverage | Linear

text \<open>
  The declarations of the \<^verbatim>\<open>regression\<close> package (\<^verbatim>\<open>declare module 'regression'\<close>). The
  package itself is third-party code: its two fitting routines are parameters of the
  model. Of \<^verbatim>\<open>Result\<close> only the fields the component reads are kept.
\<close>

type_synonym Point = "number \<times> number"

record Result =
  r2 :: number
  equation :: "number list"
  predict :: "number \<Rightarrow> number \<times> number"

record Options =
  order :: "nat option"
  precision :: "nat option"

record RegressionMethods =
  regression_linear :: "Point list \<Rightarrow> Options \<Rightarrow> Result"
  regression_polynomial :: "Point list \<Rightarrow> Options \<Rightarrow> Result"

text \<open>
  A template literal is kept as its list of fragments: the literal text and the numbers
  with the formatting call applied to them (\<^verbatim>\<open>toFixed\<close>, \<^verbatim>\<open>toExponential\<close>, the decimal
  form of an integer). Non-ASCII text is given by its UTF-8 bytes.
\<close>

datatype frag = Lit string | ToFixed number nat | ToExponential number nat | IntStr int

type_synonym template = "frag list"

definition degC :: string where
  "degC = [CHR 0xC2, CHR 0xB0, CHR ''C'']"

definition x_squared :: string where
  "x_squared = [CHR ''x'', CHR 0xC2, CHR 0xB2]"

definition cross_mark :: string where
  "cross_mark = [CHR 0xE2, CHR 0x9D, CHR 0x8C]"

text \<open>
  Calling a method on \<^verbatim>\<open>undefined\<close> (a coefficient missing from \<^verbatim>\<open>result.equation\<close>) throws
  a \<^verbatim>\<open>TypeError\<close>; it is the one exception the component itself can raise.
\<close>

datatype exn = TypeError

text \<open>\<^verbatim>\<open>xs.slice(-k)\<close>: the last \<open>k\<close> elements, or all of them.\<close>

definition slice_last :: "nat \<Rightarrow> 'a list \<Rightarrow> 'a list" where
  "slice_last k xs = drop (length xs - k) xs"

section \<open>Prediction models\<close>

record PolyOut =
  poly_prediction :: number
  poly_equation :: template
  poly_r2 :: number

definition calculatePolynomialRegression ::
  "RegressionMethods \<Rightarrow> int \<Rightarrow> TemperatureData list \<Rightarrow> int \<Rightarrow> exn + PolyOut" where
  "calculatePolynomialRegression regression currentYear data targetYear =
     (if length data = 0
      then Inr \<lparr>poly_prediction = Fin 0, poly_equation = [], poly_r2 = Fin 0\<rparr>
      else
        let recentData = slice_last 30 data;
            baseYear = year (recentData ! 0);
            points = map (\<lambda>d. (Fin (of_int (year d - baseYear)), Fin (five_year_smooth d)))
                       recentData;
            result = regression_polynomial regression points
                       \<lparr>order = Some 2, precision = Some 10\<rparr>;
            normalizedYear = targetYear - baseYear;
            yearsIntoFuture = targetYear - currentYear;
            dampeningFactor =
              Math_max (Fin 0.2) (Fin 1 - Math_pow (Fin (of_int yearsIntoFuture) / Fin 50) 0.8);
            rawPrediction = snd (predict result (Fin (of_int normalizedYear)));
            lastKnownTemp = Fin (five_year_smooth (recentData ! (length recentData - 1)));
            predictedChange = rawPrediction - lastKnownTemp;
            adjustmentFactor =
              (if Fin 0 < predictedChange
               then Math_max (Fin 0.3) (Fin 1 - predictedChange / Fin 10)
               else Math_min (Fin 1.7) (Fin 1 - predictedChange / Fin 10));
            dampedChange = predictedChange * dampeningFactor * adjustmentFactor;
            prediction = lastKnownTemp + dampedChange
        in case equation result of
             a # b # c # _ \<Rightarrow>
               let equation = [Lit ''y = '', ToExponential a 6, Lit (x_squared @ '' + ''),
                               ToFixed b 6, Lit ''x + '', ToFixed c 4];
                   n = length points;
                   p = (2::real);
                   baseR2 = Fin 1 - ((Fin 1 - r2 result) * Fin (real n - 1)) / Fin (real n - p - 1);
                   maxConfidentYears = (15::int);
                   maxPredictionYears = (76::int);
                   confidenceMultiplier =
                     (if maxConfidentYears < yearsIntoFuture
                      then
                        let decay = Math_pow
                              (Fin (of_int (yearsIntoFuture - maxConfidentYears)) /
                               Fin (of_int (maxPredictionYears - maxConfidentYears))) 0.7
                        in Math_max (Fin 0.25) (Fin 1 - decay * Fin 0.75)
                      else Fin 1);
                   adjustedR2 = baseR2 * confidenceMultiplier
               in Inr \<lparr>poly_prediction = prediction, poly_equation = equation,
                        poly_r2 = adjustedR2\<rparr>
           | _ \<Rightarrow> Inl TypeError)"

record MavgOut =
  mavg_prediction :: number
  mavg_description :: template
  mavg_r2 :: number

definition calculateMovingAverage :: "TemperatureData list \<Rightarrow> int \<Rightarrow> MavgOut" where
  "calculateMovingAverage data targetYear =
     (if length data = 0
      then \<lparr>mavg_prediction = Fin 0, mavg_description = [], mavg_r2 = Fin 0\<rparr>
      else
        let recentData = slice_last 5 data;
            avgTemp = foldl (\<lambda>sum d. sum + Fin (five_year_smooth d)) (Fin 0) recentData /
                      Fin (real (length recentData));
            yearlyChange =
              (Fin (five_year_smooth (recentData ! (length recentData - 1))) -
               Fin (five_year_smooth (recentData ! 0))) / Fin 4;
            lastYear = year (data ! (length data - 1));
            yearsAhead = targetYear - lastYear;
            prediction = avgTemp + yearlyChange * Fin (of_int yearsAhead);
            startTemp = Fin (five_year_smooth (recentData ! 0));
            predictedValues =
              map (\<lambda>i. startTemp + yearlyChange * Fin (real i)) [0..<length recentData];
            actualValues = map (\<lambda>d. Fin (five_year_smooth d)) recentData;
            meanActual = foldl (+) (hd actualValues) (tl actualValues) /
                         Fin (real (length actualValues));
            ssTotal = foldl (\<lambda>sum val. sum + Math_pow (val - meanActual) 2) (Fin 0)
                        actualValues;
            ssResidual = foldl (\<lambda>sum (val, i). sum + Math_pow (val - predictedValues ! i) 2)
                           (Fin 0) (zip actualValues [0..<length actualValues]);
            r2 = Math_max (Fin 0) (Math_min (Fin 1) (Fin 1 - ssResidual / ssTotal))
        in \<lparr>mavg_prediction = prediction,
            mavg_description =
              [Lit ''Rate of change: '', Lit (if Fin 0 < yearlyChange then ''+'' else []),
               ToFixed (yearlyChange * Fin 100) 4, Lit (degC @ '' per year'')],
            mavg_r2 = r2\<rparr>)"

record LinOut =
  lin_prediction :: number
  lin_equation :: template
  lin_simplifiedEquation :: "template option"
  lin_baseYear :: "int option"
  lin_slope :: "number option"
  lin_intercept :: "number option"
  lin_r2 :: number

definition calculateLinearRegression ::
  "RegressionMethods \<Rightarrow> int \<Rightarrow> TemperatureData list \<Rightarrow> int \<Rightarrow> exn + LinOut" where
  "calculateLinearRegression regression currentYear data targetYear =
     (if length data = 0
      then Inr \<lparr>lin_prediction = Fin 0, lin_equation = [], lin_simplifiedEquation = None,
                lin_baseYear = None, lin_slope = None, lin_intercept = None, lin_r2 = Fin 0\<rparr>
      else
        let baseYear = year (data ! 0);
            points = map (\<lambda>d. (Fin (of_int (year d - baseYear)), Fin (five_year_smooth d)))
                       data;
            result = regression_linear regression points
                       \<lparr>order = None, precision = Some 10\<rparr>;
            normalizedYear = targetYear - baseYear;
            prediction = snd (predict result (Fin (of_int normalizedYear)))
        in case equation result of
             slope # intercept # _ \<Rightarrow>
               let equation = [Lit ''y = '', ToFixed slope 6, Lit ''x + '', ToFixed intercept 4];
                   simplifiedEquation =
                     [Lit ''Temperature in '', IntStr targetYear, Lit '' = '',
                      ToFixed intercept 2, Lit (degC @ '' + ''),
                      Lit (if Fin 0 < slope then ''+'' else []),
                      ToFixed (slope * Fin (of_int (targetYear - baseYear))) 2, Lit degC];
                   yearsIntoFuture = targetYear - currentYear;
                   maxConfidentYears = (15::int);
                   maxPredictionYears = (76::int);
                   confidenceMultiplier =
                     (if maxConfidentYears < yearsIntoFuture
                      then
                        let decay = Math_pow
                              (Fin (of_int (yearsIntoFuture - maxConfidentYears)) /
                               Fin (of_int (maxPredictionYears - maxConfidentYears))) 0.7
                        in Math_max (Fin 0.25) (Fin 1 - decay * Fin 0.75)
                      else Fin 1);
                   adjustedR2 = r2 result * confidenceMultiplier
               in Inr \<lparr>lin_prediction = prediction, lin_equation = equation,
                        lin_simplifiedEquation = Some simplifiedEquation,
                        lin_baseYear = Some baseYear, lin_slope = Some slope,
                        lin_intercept = Some intercept, lin_r2 = adjustedR2\<rparr>
           | _ \<Rightarrow> Inl TypeError)"

section \<open>Trend line\<close>

text \<open>
  \<^verbatim>\<open>predictionLine\<close>: the years are the decimal strings of integers in the source (compared
  with \<^verbatim>\<open>!==\<close>, which on such strings is inequality of the integers); the model keeps the
  integers.
\<close>

record PredictionLine =
  years :: "int list"
  temps :: "number list"

text \<open>
  The \<^verbatim>\<open>if\<close>/\<^verbatim>\<open>else\<close> chain in the body of the loop of \<^verbatim>\<open>generatePredictionLine\<close>: the
  selected model is run again at the intermediate year and its prediction is kept.
\<close>

definition intermediateTemp ::
  "RegressionMethods \<Rightarrow> int \<Rightarrow> TemperatureData list \<Rightarrow> ModelType \<Rightarrow> int \<Rightarrow> exn + number" where
  "intermediateTemp regression currentYear data modelType atYear =
     (if modelType = Polynomial
      then map_sum id poly_prediction
             (calculatePolynomialRegression regression currentYear data atYear)
      else if modelType = Linear
      then map_sum id lin_prediction
             (calculateLinearRegression regression currentYear data atYear)
      else Inr (mavg_prediction (calculateMovingAverage data atYear)))"

text \<open>
  The \<^verbatim>\<open>for\<close> loop: the year \<open>yr\<close> runs from \<open>lastDataYear + yearStep\<close> in steps of \<open>yearStep\<close>
  while \<open>yr \<le> predictionYear\<close>. Nothing in the loop itself keeps \<open>yearStep\<close> positive, so
  not returning is the value \<open>None\<close>.
\<close>

partial_function (option) predictionLoop ::
  "(int \<Rightarrow> exn + number) \<Rightarrow> number \<Rightarrow> int \<Rightarrow> int \<Rightarrow> int \<Rightarrow> PredictionLine \<Rightarrow>
   (exn + PredictionLine) option" where
  "predictionLoop model predictionTemp predictionYear yearStep yr line =
     (if yr \<le> predictionYear
      then (case model yr of
              Inl e \<Rightarrow> Some (Inl e)
            | Inr temp \<Rightarrow>
                predictionLoop model predictionTemp predictionYear yearStep (yr + yearStep)
                  \<lparr>years = years line @ [yr],
                   temps = temps line @ [if isNaN temp then predictionTemp else temp]\<rparr>)
      else Some (Inr line))"

definition generatePredictionLine ::
  "RegressionMethods \<Rightarrow> int \<Rightarrow> TemperatureData list \<Rightarrow> int \<Rightarrow> number \<Rightarrow> ModelType \<Rightarrow>
   (exn + PredictionLine) option" where
  "generatePredictionLine regression currentYear data yearToPredict predictionTemp modelType =
     (if length data = 0 then Some (Inr \<lparr>years = [], temps = []\<rparr>)
      else
        let lastDataYear = year (data ! (length data - 1));
            predictionYear = yearToPredict;
            line = \<lparr>years = [lastDataYear],
                    temps = [Fin (five_year_smooth (data ! (length data - 1)))]\<rparr>;
            numPoints = (5::real);
            yearStep = \<lceil>of_int (predictionYear - lastDataYear) / numPoints\<rceil>
        in if yearStep \<le> 0 \<or> predictionYear \<le> lastDataYear
           then Some (Inr \<lparr>years = years line @ [predictionYear],
                            temps = temps line @ [predictionTemp]\<rparr>)
           else
             (case predictionLoop (intermediateTemp regression currentYear data modelType)
                     predictionTemp predictionYear yearStep (lastDataYear + yearStep) line of
                None \<Rightarrow> None
              | Some (Inl e) \<Rightarrow> Some (Inl e)
              | Some (Inr line') \<Rightarrow>
                  Some (Inr (if years line' ! (length (years line') - 1) \<noteq> predictionYear
                             then \<lparr>years = years line' @ [predictionYear],
                                   temps = temps line' @ [predictionTemp]\<rparr>
                             else line'))))"

section \<open>Simulation\<close>

text \<open>
  The outcome \<^verbatim>\<open>result\<close> and the component state that \<^verbatim>\<open>handleSimulation\<close> reads and
  writes. \<open>yearToPredict\<close> is the integer that \<^verbatim>\<open>parseInt\<close> reads from the input field.
\<close>

record SimResult =
  prediction :: number
  details :: "template list"
  error :: "string option"

record State =
  data :: "TemperatureData list"
  selectedModel :: ModelType
  yearToPredict :: int
  result :: "SimResult option"
  loading :: bool
  predictionLine :: PredictionLine
  userInitiated :: bool

text \<open>
  Step 2 of \<^verbatim>\<open>handleSimulation\<close>: the prediction of the selected model and the detail
  lines that go with it.
\<close>

definition modelConfidence :: "number \<Rightarrow> template" where
  "modelConfidence confidence = [Lit ''Model Confidence: '', ToFixed (confidence * Fin 100) 0, Lit ''%'']"

definition selectedPrediction ::
  "RegressionMethods \<Rightarrow> int \<Rightarrow> TemperatureData list \<Rightarrow> ModelType \<Rightarrow> int \<Rightarrow>
   exn + number \<times> template list" where
  "selectedPrediction regression currentYear series model targetYear =
     (if model = Polynomial
      then (case calculatePolynomialRegression regression currentYear series targetYear of
              Inl e \<Rightarrow> Inl e
            | Inr out \<Rightarrow>
                Inr (poly_prediction out,
                     [[Lit ''Year: '', IntStr targetYear],
                      [Lit ''Predicted Temperature: '', ToFixed (poly_prediction out) 1, Lit degC],
                      [Lit ''Model: Polynomial Regression''],
                      Lit ''Equation: '' # poly_equation out,
                      modelConfidence (poly_r2 out)]))
      else if model = Linear
      then (case calculateLinearRegression regression currentYear series targetYear of
              Inl e \<Rightarrow> Inl e
            | Inr out \<Rightarrow>
                let intercept = (case lin_intercept out of None \<Rightarrow> Fin 0 | Some i \<Rightarrow> i)
                in Inr (lin_prediction out,
                     [[Lit ''Year: '', IntStr targetYear],
                      [Lit ''Predicted Temperature: '', ToFixed (lin_prediction out) 1, Lit degC],
                      [Lit ''Model: Linear Regression''],
                      [Lit ''Base Year: '',
                       (case lin_baseYear out of None \<Rightarrow> Lit ''undefined'' | Some b \<Rightarrow> IntStr b),
                       Lit '' (Temperature: '', ToFixed intercept 2, Lit (degC @ '')'')],
                      Lit ''Technical Equation: '' # lin_equation out,
                      modelConfidence (lin_r2 out)]))
      else
        let out = calculateMovingAverage series targetYear
        in Inr (mavg_prediction out,
                [[Lit ''Year: '', IntStr targetYear],
                 [Lit ''Predicted Temperature: '', ToFixed (mavg_prediction out) 1, Lit degC],
                 [Lit ''Model: 5-Year Moving Average''],
                 modelConfidence (mavg_r2 out)]))"

text \<open>
  Step 3 of \<^verbatim>\<open>handleSimulation\<close>: the margin of the plausibility check, and the test
  \<^verbatim>\<open>prediction < allowedMin || prediction > allowedMax\<close> that rejects a prediction.
\<close>

definition margin :: "int \<Rightarrow> int \<Rightarrow> number" where
  "margin currentYear targetYear =
     (let baseMargin = Fin 1.5;
          yearsIntoFuture = targetYear - currentYear;
          marginIncrease = Math_min (Fin 3) (Fin (of_int yearsIntoFuture) / Fin 20)
      in baseMargin + marginIncrease)"

definition outOfRange :: "int \<Rightarrow> TemperatureData list \<Rightarrow> int \<Rightarrow> number \<Rightarrow> bool" where
  "outOfRange currentYear series targetYear p =
     (let maxTemp = Math_max_list (map (\<lambda>d. Fin (annual_mean d)) series);
          minTemp = Math_min_list (map (\<lambda>d. Fin (annual_mean d)) series);
          allowedMin = minTemp - margin currentYear targetYear;
          allowedMax = maxTemp + margin currentYear targetYear
      in p < allowedMin \<or> allowedMax < p)"

text \<open>The three outcomes that carry an error.\<close>

definition invalidYear :: SimResult where
  "invalidYear = \<lparr>prediction = Fin 0, details = [[Lit ''Invalid year selected'']],
                   error = Some ''Please select a year from 2024 onwards for predictions.''\<rparr>"

definition outOfRealisticRange :: SimResult where
  "outOfRealisticRange = \<lparr>prediction = Fin 0, details = [[Lit ''Out of realistic range'']],
                           error = Some ''Prediction falls outside realistic range.''\<rparr>"

definition calculationError :: SimResult where
  "calculationError =
     \<lparr>prediction = Fin 0,
      details = [[Lit (cross_mark @ '' Something went wrong. Please try again.'')]],
      error = Some ''Calculation error occurred''\<rparr>"

text \<open>
  \<^verbatim>\<open>handleSimulation\<close>: the state after the handler has run (\<^verbatim>\<open>setLoading(true)\<close> is
  always followed by \<^verbatim>\<open>setLoading(false)\<close>). An exception in the \<^verbatim>\<open>try\<close> block ends in the
  \<^verbatim>\<open>catch\<close> outcome.
\<close>

definition handleSimulation :: "RegressionMethods \<Rightarrow> int \<Rightarrow> State \<Rightarrow> State option" where
  "handleSimulation regression currentYear st =
     (let st = st\<lparr>userInitiated := True\<rparr>;
          inputYear = yearToPredict st
      in if inputYear < 2024
         then Some (st\<lparr>result := Some invalidYear, loading := False\<rparr>)
         else
           (case selectedPrediction regression currentYear (data st) (selectedModel st)
                   (yearToPredict st) of
              Inl e \<Rightarrow> Some (st\<lparr>result := Some calculationError, loading := False\<rparr>)
            | Inr (predicted, lines) \<Rightarrow>
                if outOfRange currentYear (data st) (yearToPredict st) predicted
                then Some (st\<lparr>result := Some outOfRealisticRange, loading := False\<rparr>)
                else
                  (case generatePredictionLine regression currentYear (data st)
                          (yearToPredict st) predicted (selectedModel st) of
                     None \<Rightarrow> None
                   | Some (Inl e) \<Rightarrow>
                       Some (st\<lparr>result := Some calculationError, loading := False\<rparr>)
                   | Some (Inr predLine) \<Rightarrow>
                       Some (st\<lparr>predictionLine := predLine,
                                 result := Some \<lparr>prediction = predicted, details = lines,
                                                 error = None\<rparr>,
                                 loading := False\<rparr>))))"

section \<open>The quantities the specification names\<close>

text \<open>
  The Moving-Average model in the words of the specification: the last 5 records, the mean
  of their \<open>five_year_smooth\<close>, the yearly change \<open>(last.smooth - first.smooth) / 4\<close> over
  them and the number of years ahead of the last historical year.
\<close>

definition last5 :: "TemperatureData list \<Rightarrow> TemperatureData list" where
  "last5 series = rev (take 5 (rev series))"

definition spec_avgTemp :: "TemperatureData list \<Rightarrow> real" where
  "spec_avgTemp series =
     (\<Sum>d\<leftarrow>last5 series. five_year_smooth d) / real (length (last5 series))"

definition spec_yearlyChange :: "TemperatureData list \<Rightarrow> real" where
  "spec_yearlyChange series =
     (five_year_smooth (last (last5 series)) - five_year_smooth (hd (last5 series))) / 4"

definition spec_yearsAhead :: "TemperatureData list \<Rightarrow> int \<Rightarrow> int" where
  "spec_yearsAhead series targetYear = targetYear - year (last series)"

text \<open>
  The two sums of squares of the Moving-Average confidence, over the smooth values \<open>vs\<close> of
  the window: against their mean, and against the line through the first value with the
  yearly change as slope.
\<close>

definition ssTotal :: "real list \<Rightarrow> real" where
  "ssTotal vs = (\<Sum>v\<leftarrow>vs. (v - sum_list vs / real (length vs))\<^sup>2)"

definition ssResidual :: "real list \<Rightarrow> real" where
  "ssResidual vs =
     (\<Sum>i\<leftarrow>[0..<length vs]. (vs ! i - (hd vs + (last vs - hd vs) / 4 * real i))\<^sup>2)"

text \<open>The scenario of the specification: last 5 smooth values 25.0, 25.1, 25.2, 25.3, 25.4.\<close>

definition scenario5 :: "TemperatureData list" where
  "scenario5 =
     [\<lparr>year = 2018, annual_mean = 25.0, five_year_smooth = 25.0\<rparr>,
      \<lparr>year = 2019, annual_mean = 25.1, five_year_smooth = 25.1\<rparr>,
      \<lparr>year = 2020, annual_mean = 25.2, five_year_smooth = 25.2\<rparr>,
      \<lparr>year = 2021, annual_mean = 25.3, five_year_smooth = 25.3\<rparr>,
      \<lparr>year = 2022, annual_mean = 25.4, five_year_smooth = 25.4\<rparr>]"

text \<open>A series whose smooth values are all equal: five years at 26.0.\<close>

definition constant5 :: "TemperatureData list" where
  "constant5 =
     [\<lparr>year = 2018, annual_mean = 26.0, five_year_smooth = 26.0\<rparr>,
      \<lparr>year = 2019, annual_mean = 26.0, five_year_smooth = 26.0\<rparr>,
      \<lparr>year = 2020, annual_mean = 26.0, five_year_smooth = 26.0\<rparr>,
      \<lparr>year = 2021, annual_mean = 26.0, five_year_smooth = 26.0\<rparr>,
      \<lparr>year = 2022, annual_mean = 26.0, five_year_smooth = 26.0\<rparr>]"

text \<open>
  The Polynomial model in the words of the specification: the most recent 30 records (or
  all, if fewer), the degree-2 fit on \<open>(year - firstRecentYear, fiveYearSmooth)\<close>, the raw
  prediction at the normalized target year, the dampening factor
  \<open>max(0.2, 1 - (\<Delta>years/50)^0.8)\<close>, the predicted change \<open>rawPrediction - lastKnownSmooth\<close>
  and the adjustment factor.
\<close>

definition recentWindow :: "TemperatureData list \<Rightarrow> TemperatureData list" where
  "recentWindow series = rev (take 30 (rev series))"

definition normalizedPoints :: "TemperatureData list \<Rightarrow> Point list" where
  "normalizedPoints rows =
     map (\<lambda>d. (Fin (of_int (year d - year (hd rows))), Fin (five_year_smooth d))) rows"

definition polynomialFit :: "RegressionMethods \<Rightarrow> TemperatureData list \<Rightarrow> Result" where
  "polynomialFit regression series =
     regression_polynomial regression (normalizedPoints (recentWindow series))
       \<lparr>order = Some 2, precision = Some 10\<rparr>"

definition spec_rawPrediction :: "RegressionMethods \<Rightarrow> TemperatureData list \<Rightarrow> int \<Rightarrow> number" where
  "spec_rawPrediction regression series targetYear =
     snd (predict (polynomialFit regression series)
            (Fin (of_int (targetYear - year (hd (recentWindow series))))))"

definition lastKnownSmooth :: "TemperatureData list \<Rightarrow> number" where
  "lastKnownSmooth series = Fin (five_year_smooth (last series))"

definition spec_predictedChange :: "RegressionMethods \<Rightarrow> TemperatureData list \<Rightarrow> int \<Rightarrow> number" where
  "spec_predictedChange regression series targetYear =
     spec_rawPrediction regression series targetYear - lastKnownSmooth series"

definition spec_dampeningFactor :: "int \<Rightarrow> number" where
  "spec_dampeningFactor deltaYears =
     Math_max (Fin 0.2) (Fin 1 - Math_pow (Fin (of_int deltaYears) / Fin 50) 0.8)"

definition spec_adjustmentFactor :: "number \<Rightarrow> number" where
  "spec_adjustmentFactor change =
     (if Fin 0 < change then Math_max (Fin 0.3) (Fin 1 - change / Fin 10)
      else Math_min (Fin 1.7) (Fin 1 - change / Fin 10))"

text \<open>
  The same final prediction on real numbers, for a raw prediction \<open>raw\<close> that is a number
  and a target year \<open>deltaYears \<ge> 0\<close> years after the current one.
\<close>

definition spec_finalPrediction :: "real \<Rightarrow> real \<Rightarrow> int \<Rightarrow> real" where
  "spec_finalPrediction lastKnown raw deltaYears =
     (let predictedChange = raw - lastKnown;
          dampeningFactor = max 0.2 (1 - (real_of_int deltaYears / 50) powr 0.8);
          adjustmentFactor =
            (if 0 < predictedChange then max 0.3 (1 - predictedChange / 10)
             else min 1.7 (1 - predictedChange / 10))
      in lastKnown + predictedChange * dampeningFactor * adjustmentFactor)"

text \<open>
  The Linear model fits the entire series, normalized to its first year.
\<close>

definition linearFit :: "RegressionMethods \<Rightarrow> TemperatureData list \<Rightarrow> Result" where
  "linearFit regression series =
     regression_linear regression (normalizedPoints series)
       \<lparr>order = None, precision = Some 10\<rparr>"

text \<open>
  Confidence: the adjustment of the Polynomial model for degrees of freedom,
  \<open>baseR2 = 1 - (1 - r2)(n - 1)/(n - p - 1)\<close> with \<open>p = 2\<close>, and the decay multiplier: 1 up to
  15 years into the future, else \<open>max(0.25, 1 - decay \<times> 0.75)\<close> with
  \<open>decay = ((yearsIntoFuture - 15) / (76 - 15))^0.7\<close>.
\<close>

definition spec_baseR2 :: "RegressionMethods \<Rightarrow> TemperatureData list \<Rightarrow> number" where
  "spec_baseR2 regression series =
     Fin 1 - ((Fin 1 - r2 (polynomialFit regression series))
                * Fin (real (length (recentWindow series)) - 1))
             / Fin (real (length (recentWindow series)) - 2 - 1)"

definition spec_decay :: "int \<Rightarrow> real" where
  "spec_decay yearsIntoFuture = ((real_of_int yearsIntoFuture - 15) / (76 - 15)) powr 0.7"

definition spec_multiplier :: "int \<Rightarrow> real" where
  "spec_multiplier yearsIntoFuture =
     (if yearsIntoFuture \<le> 15 then 1 else max 0.25 (1 - spec_decay yearsIntoFuture * 0.75))"

text \<open>A number lies in \<open>[0, 1]\<close>; \<open>NaN\<close> does not.\<close>

definition inUnit :: "number \<Rightarrow> bool" where
  "inUnit x = (Fin 0 \<le> x \<and> x \<le> Fin 1)"

text \<open>
  Two series with the least-squares fits of the \<^verbatim>\<open>regression\<close> package on them, for
  evaluating the models. The first lies on the parabola \<open>26 + 0.05 x + 0.05 x\<^sup>2\<close> in the
  normalized year \<open>x\<close>, so the degree-2 fit is exact and \<open>r2 = 1\<close>, and the least-squares
  line is \<open>25.95 + 0.2 x\<close> with \<open>r2 = 1 - 0.01 / 0.21\<close>; its first three years are a window
  of three records. The second has the residuals \<open>-0.1, 0.3, -0.3, 0.1\<close> around 26,
  which are orthogonal to \<open>1\<close>, \<open>x\<close> and \<open>x\<^sup>2\<close> on \<open>x = 0, 1, 2, 3\<close>: the least-squares line and
  parabola are both the constant 26 and \<open>r2 = 0\<close>.
\<close>

definition quadratic4 :: "TemperatureData list" where
  "quadratic4 =
     [\<lparr>year = 2019, annual_mean = 26.0, five_year_smooth = 26.0\<rparr>,
      \<lparr>year = 2020, annual_mean = 26.1, five_year_smooth = 26.1\<rparr>,
      \<lparr>year = 2021, annual_mean = 26.3, five_year_smooth = 26.3\<rparr>,
      \<lparr>year = 2022, annual_mean = 26.6, five_year_smooth = 26.6\<rparr>]"

definition quadraticFit :: Result where
  "quadraticFit =
     \<lparr>r2 = Fin 1, equation = [Fin 0.05, Fin 0.05, Fin 26],
      predict = (\<lambda>x. (x, Fin 0.05 * x * x + Fin 0.05 * x + Fin 26))\<rparr>"

definition quadraticLineFit :: Result where
  "quadraticLineFit =
     \<lparr>r2 = Fin (20 / 21), equation = [Fin 0.2, Fin 25.95],
      predict = (\<lambda>x. (x, Fin 0.2 * x + Fin 25.95))\<rparr>"

definition quadraticRegression :: RegressionMethods where
  "quadraticRegression =
     \<lparr>regression_linear = (\<lambda>points options. quadraticLineFit),
      regression_polynomial = (\<lambda>points options. quadraticFit)\<rparr>"

definition zigzag4 :: "TemperatureData list" where
  "zigzag4 =
     [\<lparr>year = 2019, annual_mean = 25.9, five_year_smooth = 25.9\<rparr>,
      \<lparr>year = 2020, annual_mean = 26.3, five_year_smooth = 26.3\<rparr>,
      \<lparr>year = 2021, annual_mean = 25.7, five_year_smooth = 25.7\<rparr>,
      \<lparr>year = 2022, annual_mean = 26.1, five_year_smooth = 26.1\<rparr>]"

definition flatRegression :: RegressionMethods where
  "flatRegression =
     \<lparr>regression_linear =
        (\<lambda>points options. \<lparr>r2 = Fin 0, equation = [Fin 0, Fin 26],
                            predict = (\<lambda>x. (x, Fin 26))\<rparr>),
      regression_polynomial =
        (\<lambda>points options. \<lparr>r2 = Fin 0, equation = [Fin 0, Fin 0, Fin 26],
                            predict = (\<lambda>x. (x, Fin 26))\<rparr>)\<rparr>"

text \<open>
  The Plausibility Guard in the words of the specification, on real numbers:
  \<open>margin = 1.5 + min(3, yearsIntoFuture / 20)\<close> and acceptance iff
  \<open>minTemp - margin \<le> prediction \<le> maxTemp + margin\<close>, with \<open>minTemp\<close> and \<open>maxTemp\<close> the
  minimum and the maximum of all \<open>annual_mean\<close> values.
\<close>

definition spec_margin :: "int \<Rightarrow> int \<Rightarrow> real" where
  "spec_margin currentYear targetYear = 1.5 + min 3 (real_of_int (targetYear - currentYear) / 20)"

definition spec_accepts :: "int \<Rightarrow> TemperatureData list \<Rightarrow> int \<Rightarrow> real \<Rightarrow> bool" where
  "spec_accepts currentYear series targetYear p =
     (Min (annual_mean ` set series) - spec_margin currentYear targetYear \<le> p \<and>
      p \<le> Max (annual_mean ` set series) + spec_margin currentYear targetYear)"

text \<open>
  The state of the component once the series is loaded and before any run
  (\<^verbatim>\<open>useState\<close>), for a selected model and a year typed into the input field; and a second
  run after the year in the input field has been changed (\<^verbatim>\<open>setYearToPredict\<close>).
\<close>

definition initialState :: "TemperatureData list \<Rightarrow> ModelType \<Rightarrow> int \<Rightarrow> State" where
  "initialState series model targetYear =
     \<lparr>data = series, selectedModel = model, yearToPredict = targetYear, result = None,
      loading = False, predictionLine = \<lparr>years = [], temps = []\<rparr>, userInitiated = False\<rparr>"

definition runAgainWithYear :: "RegressionMethods \<Rightarrow> int \<Rightarrow> int \<Rightarrow> State option \<Rightarrow> State option" where
  "runAgainWithYear regression currentYear targetYear previous =
     (case previous of
        None \<Rightarrow> None
      | Some st \<Rightarrow> handleSimulation regression currentYear (st\<lparr>yearToPredict := targetYear\<rparr>))"

text \<open>A series rising by one degree a year: smooth values 25, 26, 27, 28, 29.\<close>

definition steep5 :: "TemperatureData list" where
  "steep5 =
     [\<lparr>year = 2018, annual_mean = 25, five_year_smooth = 25\<rparr>,
      \<lparr>year = 2019, annual_mean = 26, five_year_smooth = 26\<rparr>,
      \<lparr>year = 2020, annual_mean = 27, five_year_smooth = 27\<rparr>,
      \<lparr>year = 2021, annual_mean = 28, five_year_smooth = 28\<rparr>,
      \<lparr>year = 2022, annual_mean = 29, five_year_smooth = 29\<rparr>]"

section \<open>Lemmas\<close>

subsection \<open>Arithmetic of numbers\<close>

lemma minus_number_simps [simp]:
  "Fin a - Fin b = Fin (a - b)"
  "x - NaN = NaN" "NaN - x = NaN"
  "Fin a - PInf = NInf" "Fin a - NInf = PInf"
  "PInf - Fin a = PInf" "NInf - Fin a = NInf"
  "PInf - PInf = NaN" "NInf - NInf = NaN"
  "PInf - NInf = PInf" "NInf - PInf = NInf"
  by (cases x; simp add: minus_number_def)+

lemma number_NaN_absorbs [simp]:
  "x * NaN = NaN" "NaN * x = NaN" "x + NaN = NaN" "NaN + x = NaN"
  by (cases x; simp)+

lemma times_Fin_one [simp]: "x * Fin 1 = x"
  by (cases x) simp_all

lemma less_number_NaN [simp]: "\<not> x < NaN" "\<not> NaN < x"
  by (cases x; simp)+

lemma isFinite_times_Fin [simp]: "isFinite (x * Fin m) = isFinite x"
  by (cases x) simp_all

lemma Math_max_Fin [simp]: "Math_max (Fin a) (Fin b) = Fin (max a b)"
  by (simp add: Math_max_def max_def)

lemma Math_min_Fin [simp]: "Math_min (Fin a) (Fin b) = Fin (min a b)"
  by (simp add: Math_min_def min_def)

lemma Math_max_NaN [simp]: "Math_max x NaN = NaN" "Math_max NaN x = NaN"
  by (simp_all add: Math_max_def)

lemma Math_min_NaN [simp]: "Math_min x NaN = NaN" "Math_min NaN x = NaN"
  by (simp_all add: Math_min_def)

lemma Math_pow_two [simp]: "Math_pow (Fin a) 2 = Fin (a\<^sup>2)"
proof -
  have i: "is_integer 2" by (simp add: is_integer_def)
  have "a < 0 \<Longrightarrow> (- a) powr 2 = a\<^sup>2"
    using powr_numeral [of "- a" "Num.Bit0 Num.One"] by simp
  moreover have "0 < a \<Longrightarrow> a powr 2 = a\<^sup>2"
    using powr_numeral [of "a" "Num.Bit0 Num.One"] by simp
  ultimately show ?thesis
    using i by (auto simp: Math_pow_def not_less)
qed

lemma Math_pow_Fin_zero [simp]: "0 < e \<Longrightarrow> Math_pow (Fin 0) e = Fin 0"
  by (simp add: Math_pow_def)

lemma Math_pow_Fin_pos: "0 < a \<Longrightarrow> e \<noteq> 0 \<Longrightarrow> Math_pow (Fin a) e = Fin (a powr e)"
  by (simp add: Math_pow_def)

lemma Math_pow_Fin_nonneg: "0 \<le> a \<Longrightarrow> 0 < e \<Longrightarrow> Math_pow (Fin a) e = Fin (a powr e)"
  by (simp add: Math_pow_def)

lemma inUnit_times:
  assumes "inUnit x" and "0 \<le> m" and "m \<le> 1"
  shows "inUnit (x * Fin m)"
proof -
  obtain a where x: "x = Fin a" and a: "0 \<le> a" "a \<le> 1"
    using assms(1) by (cases x) (simp_all add: inUnit_def)
  have "a * m \<le> 1" using a assms(2,3) by (simp add: mult_le_one)
  then show ?thesis using x a assms(2) by (simp add: inUnit_def)
qed

lemma inUnit_clamp: "x \<noteq> NaN \<Longrightarrow> inUnit (Math_max (Fin 0) (Math_min (Fin 1) x))"
  by (cases x) (simp_all add: inUnit_def Math_max_def Math_min_def)

lemma isFinite_baseR2:
  assumes "0 < n"
  shows "isFinite (Fin 1 - ((Fin 1 - x) * Fin (real n - 1)) / Fin (real n - 2 - 1))
           \<longleftrightarrow> isFinite x \<and> n \<noteq> 3"
proof (cases "n = 3")
  case True
  then show ?thesis by (cases x) simp_all
next
  case False
  then have "real n - 2 - 1 \<noteq> 0" by auto
  then show ?thesis using False by (cases x) auto
qed

subsection \<open>Folds over lists of numbers\<close>

lemma foldl_plus_Fin:
  "foldl (\<lambda>sum d. sum + Fin (f d)) (Fin a) xs = Fin (a + sum_list (map f xs))"
  by (induction xs arbitrary: a) (simp_all add: add.assoc)

lemma foldl_reduce_Fin:
  "foldl (+) (Fin a) (map (\<lambda>d. Fin (f d)) xs) = Fin (a + sum_list (map f xs))"
  by (induction xs arbitrary: a) (simp_all add: add.assoc)

lemma foldl_squares_Fin:
  "foldl (\<lambda>sum val. sum + Math_pow (val - Fin m) 2) (Fin a) (map (\<lambda>d. Fin (f d)) xs)
     = Fin (a + sum_list (map (\<lambda>d. (f d - m)\<^sup>2) xs))"
  by (induction xs arbitrary: a) (simp_all add: add.assoc)

lemma foldl_indexed:
  "foldl (\<lambda>sum (val, i). sum + h val i) a (zip vs [0..<length vs])
     = foldl (+) a (map (\<lambda>i. h (vs ! i) i) [0..<length vs])"
proof -
  have "foldl (\<lambda>sum (val, i). sum + h val i) a zs = foldl (+) a (map (\<lambda>(val, i). h val i) zs)"
    for zs
    by (induction zs arbitrary: a) (simp_all add: case_prod_beta)
  moreover have "map (\<lambda>(val, i). h val i) (zip vs [0..<length vs])
                   = map (\<lambda>i. h (vs ! i) i) [0..<length vs]"
    by (rule nth_equalityI) simp_all
  ultimately show ?thesis by simp
qed

lemma sum_list_zeros: "\<forall>x\<in>set xs. f x = 0 \<Longrightarrow> sum_list (map f xs) = (0::real)"
  by (induction xs) auto

lemma Max_insert_max:
  "finite S \<Longrightarrow> Max (insert (max a b) S) = Max (insert a (insert b S))" for a b :: real
  by (cases "S = {}") (simp_all add: max.assoc)

lemma Min_insert_min:
  "finite S \<Longrightarrow> Min (insert (min a b) S) = Min (insert a (insert b S))" for a b :: real
  by (cases "S = {}") (simp_all add: min.assoc)

lemma foldl_Math_max_Fin:
  "foldl Math_max (Fin a) (map (\<lambda>d. Fin (f d)) xs) = Fin (Max (insert a (f ` set xs)))"
  by (induction xs arbitrary: a) (simp_all add: Max_insert_max)

lemma foldl_Math_min_Fin:
  "foldl Math_min (Fin a) (map (\<lambda>d. Fin (f d)) xs) = Fin (Min (insert a (f ` set xs)))"
  by (induction xs arbitrary: a) (simp_all add: Min_insert_min)

lemma Math_max_list_Fin:
  "xs \<noteq> [] \<Longrightarrow> Math_max_list (map (\<lambda>d. Fin (f d)) xs) = Fin (Max (f ` set xs))"
  by (cases xs) (simp_all add: Math_max_list_def Math_max_def foldl_Math_max_Fin)

lemma Math_min_list_Fin:
  "xs \<noteq> [] \<Longrightarrow> Math_min_list (map (\<lambda>d. Fin (f d)) xs) = Fin (Min (f ` set xs))"
  by (cases xs) (simp_all add: Math_min_list_def Math_min_def foldl_Math_min_Fin)

lemma length_ge_3: "3 \<le> length xs \<Longrightarrow> \<exists>a b c rest. xs = a # b # c # rest"
  by (auto simp: eval_nat_numeral Suc_le_length_iff)

lemma length_ge_2: "2 \<le> length xs \<Longrightarrow> \<exists>a b rest. xs = a # b # rest"
  by (auto simp: eval_nat_numeral Suc_le_length_iff)

lemma length_less_3: "\<not> 3 \<le> length xs \<Longrightarrow> xs = [] \<or> (\<exists>a. xs = [a]) \<or> (\<exists>a b. xs = [a, b])"
  by (cases xs; cases "tl xs"; cases "tl (tl xs)") auto

lemma length_less_2: "\<not> 2 \<le> length xs \<Longrightarrow> xs = [] \<or> (\<exists>a. xs = [a])"
  by (cases xs; cases "tl xs") auto

subsection \<open>Windows\<close>

lemma slice_last_nonempty: "xs \<noteq> [] \<Longrightarrow> 0 < k \<Longrightarrow> slice_last k xs \<noteq> []"
  by (cases xs) (simp_all add: slice_last_def)

lemma slice_last_hd: "xs \<noteq> [] \<Longrightarrow> 0 < k \<Longrightarrow> slice_last k xs ! 0 = hd (slice_last k xs)"
  using slice_last_nonempty [of xs k] by (simp add: hd_conv_nth)

lemma slice_last_last:
  "xs \<noteq> [] \<Longrightarrow> 0 < k \<Longrightarrow> slice_last k xs ! (length (slice_last k xs) - 1) = last xs"
proof -
  assume xs: "xs \<noteq> []" and k: "0 < k"
  then have "slice_last k xs \<noteq> []" by (rule slice_last_nonempty)
  then have "slice_last k xs ! (length (slice_last k xs) - 1) = last (slice_last k xs)"
    by (simp add: last_conv_nth)
  also have "\<dots> = last xs"
    using xs k by (simp add: slice_last_def)
  finally show ?thesis .
qed

lemma last5_slice: "last5 xs = slice_last 5 xs"
  by (simp add: last5_def slice_last_def take_rev)

lemma recentWindow_slice: "recentWindow xs = slice_last 30 xs"
  by (simp add: recentWindow_def slice_last_def take_rev)

subsection \<open>Moving average\<close>

lemma mavg_prediction_eq:
  assumes "series \<noteq> []"
  shows "mavg_prediction (calculateMovingAverage series targetYear) =
           Fin (spec_avgTemp series + spec_yearlyChange series
                  * real_of_int (spec_yearsAhead series targetYear))"
proof -
  let ?w = "slice_last 5 series"
  have w: "?w \<noteq> []" using assms by (simp add: slice_last_nonempty)
  have l: "?w ! (length ?w - Suc 0) = last ?w" using w by (simp add: last_conv_nth)
  have h: "?w ! 0 = hd ?w" using w by (simp add: hd_conv_nth)
  have d: "series ! (length series - Suc 0) = last series"
    using assms by (simp add: last_conv_nth)
  show ?thesis
    using assms w
    by (simp add: calculateMovingAverage_def Let_def foldl_plus_Fin l h d
        spec_avgTemp_def spec_yearlyChange_def spec_yearsAhead_def last5_slice)
qed

lemma mavg_r2_eq:
  assumes "series \<noteq> []"
  shows "mavg_r2 (calculateMovingAverage series targetYear) =
           Math_max (Fin 0) (Math_min (Fin 1)
             (Fin 1 - Fin (ssResidual (map five_year_smooth (slice_last 5 series)))
                      / Fin (ssTotal (map five_year_smooth (slice_last 5 series)))))"
proof -
  let ?w = "slice_last 5 series"
  let ?vs = "map five_year_smooth ?w"
  let ?av = "map (\<lambda>d. Fin (five_year_smooth d)) ?w"
  have w: "?w \<noteq> []" using assms by (simp add: slice_last_nonempty)
  have yc: "(Fin a - Fin b) / Fin 4 = Fin ((a - b) / 4)" for a b by simp
  have mean: "foldl (+) (hd ?av) (tl ?av) / Fin (real (length ?av))
                = Fin (sum_list ?vs / real (length ?vs))"
    using w by (cases ?w) (simp_all add: foldl_reduce_Fin)
  have tot: "foldl (\<lambda>sum val. sum + Math_pow (val - Fin m) 2) (Fin 0) ?av
               = Fin (\<Sum>v\<leftarrow>?vs. (v - m)\<^sup>2)" for m
    by (simp add: foldl_squares_Fin comp_def)
  have res: "foldl (\<lambda>sum (val, i). sum + Math_pow
                 (val - map (\<lambda>i. Fin s + Fin c * Fin (real i)) [0..<length ?w] ! i) 2)
               (Fin 0) (zip ?av [0..<length ?av])
               = Fin (\<Sum>i\<leftarrow>[0..<length ?vs]. (?vs ! i - (s + c * real i))\<^sup>2)" for s c
  proof -
    have "map (\<lambda>i. Math_pow (?av ! i - map (\<lambda>i. Fin s + Fin c * Fin (real i)) [0..<length ?w] ! i) 2)
            [0..<length ?av]
          = map (\<lambda>i. Fin ((?vs ! i - (s + c * real i))\<^sup>2)) [0..<length ?vs]"
      by (rule nth_equalityI) simp_all
    then show ?thesis
      by (simp only: foldl_indexed foldl_reduce_Fin) simp
  qed
  have e: "five_year_smooth (?w ! 0) = hd ?vs"
          "five_year_smooth (?w ! (length ?w - 1)) = last ?vs"
    using w by (simp_all add: hd_conv_nth last_conv_nth hd_map last_map)
  have "mavg_r2 (calculateMovingAverage series targetYear) =
          Math_max (Fin 0) (Math_min (Fin 1)
            (Fin 1 - Fin (\<Sum>i\<leftarrow>[0..<length ?vs]. (?vs ! i -
                       (five_year_smooth (?w ! 0) +
                        (five_year_smooth (?w ! (length ?w - 1)) - five_year_smooth (?w ! 0)) / 4
                        * real i))\<^sup>2)
                   / Fin (\<Sum>v\<leftarrow>?vs. (v - sum_list ?vs / real (length ?vs))\<^sup>2)))"
    unfolding calculateMovingAverage_def Let_def
    by (simp only: yc mean tot res) (simp add: assms)
  also have "\<dots> = Math_max (Fin 0) (Math_min (Fin 1)
             (Fin 1 - Fin (ssResidual ?vs) / Fin (ssTotal ?vs)))"
    by (simp only: e ssTotal_def ssResidual_def)
  finally show ?thesis .
qed

lemma ssTotal_nonneg: "0 \<le> ssTotal vs"
  unfolding ssTotal_def by (rule sum_list_nonneg) auto

lemma ssResidual_nonneg: "0 \<le> ssResidual vs"
  unfolding ssResidual_def by (rule sum_list_nonneg) auto

lemma ssTotal_constant:
  assumes "\<forall>v\<in>set vs. v = c"
  shows "ssTotal vs = 0"
proof -
  have vs: "vs = replicate (length vs) c"
    using assms by (simp add: replicate_length_same)
  have "sum_list vs = real (length vs) * c"
    by (subst vs) (simp add: sum_list_replicate)
  then have "\<forall>v\<in>set vs. (v - sum_list vs / real (length vs))\<^sup>2 = 0"
    using assms by (cases "vs = []") auto
  then show ?thesis
    unfolding ssTotal_def by (rule sum_list_zeros)
qed

lemma ssResidual_constant:
  assumes "\<forall>v\<in>set vs. v = c"
  shows "ssResidual vs = 0"
proof (cases "vs = []")
  case True
  then show ?thesis by (simp add: ssResidual_def)
next
  case False
  then have "hd vs = c" "last vs = c" using assms by simp_all
  moreover have "\<forall>i\<in>set [0..<length vs]. vs ! i = c" using assms by simp
  ultimately have "\<forall>i\<in>set [0..<length vs].
      (vs ! i - (hd vs + (last vs - hd vs) / 4 * real i))\<^sup>2 = 0"
    by simp
  then show ?thesis
    unfolding ssResidual_def by (rule sum_list_zeros)
qed

lemma mavg_r2_constant_window:
  assumes "series \<noteq> []" and "\<forall>d\<in>set (last5 series). five_year_smooth d = c"
  shows "mavg_r2 (calculateMovingAverage series targetYear) = NaN"
proof -
  have "\<forall>v\<in>set (map five_year_smooth (slice_last 5 series)). v = c"
    using assms(2) by (simp add: last5_slice)
  then have "ssTotal (map five_year_smooth (slice_last 5 series)) = 0"
    and "ssResidual (map five_year_smooth (slice_last 5 series)) = 0"
    by (rule ssTotal_constant, rule ssResidual_constant)
  then show ?thesis
    by (simp add: mavg_r2_eq [OF assms(1)])
qed

lemma mavg_r2_inUnit:
  assumes "series \<noteq> []" and "ssTotal (map five_year_smooth (last5 series)) \<noteq> 0"
  shows "inUnit (mavg_r2 (calculateMovingAverage series targetYear))"
proof -
  have "Fin 1 - Fin (ssResidual (map five_year_smooth (slice_last 5 series)))
                / Fin (ssTotal (map five_year_smooth (slice_last 5 series))) \<noteq> NaN"
    using assms(2) by (simp add: last5_slice)
  then show ?thesis
    unfolding mavg_r2_eq [OF assms(1)] by (rule inUnit_clamp)
qed

subsection \<open>Polynomial and linear regression\<close>

lemma confidenceMultiplier_eq:
  "(if (15::int) < y
    then Math_max (Fin 0.25)
           (Fin 1 - Math_pow (Fin (of_int (y - 15)) / Fin (of_int (76 - 15))) 0.7 * Fin 0.75)
    else Fin 1) = Fin (spec_multiplier y)"
  by (simp add: spec_multiplier_def spec_decay_def Math_pow_def)

lemma spec_multiplier_bounds: "0.25 \<le> spec_multiplier y \<and> spec_multiplier y \<le> 1"
proof -
  have "0 \<le> spec_decay y" by (simp add: spec_decay_def)
  then have "1 - spec_decay y * 0.75 \<le> 1" by simp
  then show ?thesis by (auto simp: spec_multiplier_def max_def)
qed

lemma spec_multiplier_76: "spec_multiplier 76 = 0.25"
  by (simp add: spec_multiplier_def spec_decay_def)

lemma spec_dampeningFactor_future:
  "0 \<le> deltaYears \<Longrightarrow>
     spec_dampeningFactor deltaYears = Fin (max 0.2 (1 - (real_of_int deltaYears / 50) powr 0.8))"
  by (simp add: spec_dampeningFactor_def Math_pow_Fin_nonneg)

lemma spec_dampeningFactor_past: "deltaYears < 0 \<Longrightarrow> spec_dampeningFactor deltaYears = NaN"
  by (simp add: spec_dampeningFactor_def Math_pow_def is_integer_def)

lemma spec_adjustmentFactor_Fin:
  "spec_adjustmentFactor (Fin c) =
     Fin (if 0 < c then max 0.3 (1 - c / 10) else min 1.7 (1 - c / 10))"
  by (simp add: spec_adjustmentFactor_def)

lemma calculatePolynomialRegression_eq:
  assumes "series \<noteq> []" and "3 \<le> length (equation (polynomialFit regression series))"
  shows "\<exists>out. calculatePolynomialRegression regression currentYear series targetYear = Inr out \<and>
           poly_prediction out =
             lastKnownSmooth series
             + spec_predictedChange regression series targetYear
               * spec_dampeningFactor (targetYear - currentYear)
               * spec_adjustmentFactor (spec_predictedChange regression series targetYear) \<and>
           poly_r2 out = spec_baseR2 regression series * Fin (spec_multiplier (targetYear - currentYear))"
proof -
  let ?w = "slice_last 30 series"
  have h: "?w ! 0 = hd ?w" using assms(1) by (simp add: slice_last_hd)
  have l: "?w ! (length ?w - 1) = last series"
    using assms(1) by (intro slice_last_last) simp_all
  obtain a b c rest where e: "equation (polynomialFit regression series) = a # b # c # rest"
    using length_ge_3 [OF assms(2)] by blast
  have e': "equation (regression_polynomial regression
              (map (\<lambda>d. (Fin (of_int (year d - year (hd ?w))), Fin (five_year_smooth d))) ?w)
              \<lparr>order = Some 2, precision = Some 10\<rparr>) = a # b # c # rest"
    using e by (simp add: polynomialFit_def normalizedPoints_def recentWindow_slice)
  show ?thesis
    unfolding calculatePolynomialRegression_def Let_def
    apply (simp only: h l e' confidenceMultiplier_eq)
    apply (simp add: assms(1) lastKnownSmooth_def spec_predictedChange_def spec_rawPrediction_def
        spec_dampeningFactor_def spec_adjustmentFactor_def spec_baseR2_def polynomialFit_def
        normalizedPoints_def recentWindow_slice)
    done
qed

lemma calculateLinearRegression_eq:
  assumes "series \<noteq> []" and "2 \<le> length (equation (linearFit regression series))"
  shows "\<exists>out. calculateLinearRegression regression currentYear series targetYear = Inr out \<and>
           lin_prediction out =
             snd (predict (linearFit regression series)
                    (Fin (of_int (targetYear - year (hd series))))) \<and>
           lin_r2 out = r2 (linearFit regression series)
                          * Fin (spec_multiplier (targetYear - currentYear))"
proof -
  have h: "series ! 0 = hd series" using assms(1) by (simp add: hd_conv_nth)
  obtain a b rest where e: "equation (linearFit regression series) = a # b # rest"
    using length_ge_2 [OF assms(2)] by blast
  have e': "equation (regression_linear regression
              (map (\<lambda>d. (Fin (of_int (year d - year (hd series))), Fin (five_year_smooth d)))
                 series)
              \<lparr>order = None, precision = Some 10\<rparr>) = a # b # rest"
    using e by (simp add: linearFit_def normalizedPoints_def)
  show ?thesis
    unfolding calculateLinearRegression_def Let_def
    apply (simp only: h e' confidenceMultiplier_eq)
    apply (simp add: assms(1) linearFit_def normalizedPoints_def)
    done
qed

lemma calculatePolynomialRegression_throws:
  assumes "series \<noteq> []" and "\<not> 3 \<le> length (equation (polynomialFit regression series))"
  shows "calculatePolynomialRegression regression currentYear series targetYear = Inl TypeError"
proof -
  let ?w = "slice_last 30 series"
  let ?e = "equation (regression_polynomial regression
              (map (\<lambda>d. (Fin (of_int (year d - year (?w ! 0))), Fin (five_year_smooth d))) ?w)
              \<lparr>order = Some 2, precision = Some 10\<rparr>)"
  have h: "?w ! 0 = hd ?w" using assms(1) by (simp add: slice_last_hd)
  have "?e = equation (polynomialFit regression series)"
    by (simp add: h polynomialFit_def normalizedPoints_def recentWindow_slice)
  then have "?e = [] \<or> (\<exists>a. ?e = [a]) \<or> (\<exists>a b. ?e = [a, b])"
    using length_less_3 [OF assms(2)] by simp
  then show ?thesis
    unfolding calculatePolynomialRegression_def Let_def
    using assms(1) by (elim disjE exE) simp_all
qed

lemma calculateLinearRegression_throws:
  assumes "series \<noteq> []" and "\<not> 2 \<le> length (equation (linearFit regression series))"
  shows "calculateLinearRegression regression currentYear series targetYear = Inl TypeError"
proof -
  let ?e = "equation (regression_linear regression
              (map (\<lambda>d. (Fin (of_int (year d - year (series ! 0))), Fin (five_year_smooth d)))
                 series)
              \<lparr>order = None, precision = Some 10\<rparr>)"
  have h: "series ! 0 = hd series" using assms(1) by (simp add: hd_conv_nth)
  have "?e = equation (linearFit regression series)"
    by (simp add: h linearFit_def normalizedPoints_def)
  then have "?e = [] \<or> (\<exists>a. ?e = [a])"
    using length_less_2 [OF assms(2)] by simp
  then show ?thesis
    unfolding calculateLinearRegression_def Let_def
    using assms(1) by (elim disjE exE) simp_all
qed

lemma calculatePolynomialRegression_any_year:
  assumes "calculatePolynomialRegression regression currentYear series y = Inr out"
  shows "\<exists>out'. calculatePolynomialRegression regression currentYear series y' = Inr out'"
proof (cases "series = []")
  case True
  then show ?thesis by (simp add: calculatePolynomialRegression_def)
next
  case False
  then have "3 \<le> length (equation (polynomialFit regression series))"
    using assms calculatePolynomialRegression_throws [OF False, of regression currentYear y]
    by auto
  then show ?thesis
    using calculatePolynomialRegression_eq [OF False, of regression currentYear y'] by blast
qed

lemma calculateLinearRegression_any_year:
  assumes "calculateLinearRegression regression currentYear series y = Inr out"
  shows "\<exists>out'. calculateLinearRegression regression currentYear series y' = Inr out'"
proof (cases "series = []")
  case True
  then show ?thesis by (simp add: calculateLinearRegression_def)
next
  case False
  then have "2 \<le> length (equation (linearFit regression series))"
    using assms calculateLinearRegression_throws [OF False, of regression currentYear y]
    by auto
  then show ?thesis
    using calculateLinearRegression_eq [OF False, of regression currentYear y'] by blast
qed

subsection \<open>The loop of the trend line\<close>

lemma predictionLoop_returns:
  assumes step: "0 < yearStep"
    and total: "\<And>y. \<exists>t. model y = Inr t"
    and target: "model predictionYear = Inr predictionTemp"
    and inv: "length (years line) = length (temps line)" "years line \<noteq> []"
      "last (years line) = predictionYear \<longrightarrow> last (temps line) = predictionTemp"
  shows "\<exists>line'. predictionLoop model predictionTemp predictionYear yearStep yr line
                    = Some (Inr line') \<and>
           length (years line') = length (temps line') \<and> years line' \<noteq> [] \<and>
           hd (years line') = hd (years line) \<and> hd (temps line') = hd (temps line) \<and>
           (last (years line') = predictionYear \<longrightarrow> last (temps line') = predictionTemp)"
  using inv
proof (induction "nat (predictionYear - yr + 1)" arbitrary: yr line rule: less_induct)
  case less
  show ?case
  proof (cases "yr \<le> predictionYear")
    case False
    then show ?thesis
      using less.prems by (subst predictionLoop.simps) simp
  next
    case True
    obtain t where t: "model yr = Inr t" using total by blast
    let ?line = "\<lparr>years = years line @ [yr],
                  temps = temps line @ [if isNaN t then predictionTemp else t]\<rparr>"
    have m: "nat (predictionYear - (yr + yearStep) + 1) < nat (predictionYear - yr + 1)"
      using True step by simp
    have tt: "yr = predictionYear \<Longrightarrow> (if isNaN t then predictionTemp else t) = predictionTemp"
      using t target by auto
    have tne: "temps line \<noteq> []" using less.prems(1,2) by auto
    have "\<exists>line'. predictionLoop model predictionTemp predictionYear yearStep (yr + yearStep) ?line
                    = Some (Inr line') \<and>
           length (years line') = length (temps line') \<and> years line' \<noteq> [] \<and>
           hd (years line') = hd (years ?line) \<and> hd (temps line') = hd (temps ?line) \<and>
           (last (years line') = predictionYear \<longrightarrow> last (temps line') = predictionTemp)"
      by (rule less.hyps [OF m]) (use less.prems tt in simp_all)
    then show ?thesis
      using True t less.prems(2) tne by (subst predictionLoop.simps) simp
  qed
qed

lemma generatePredictionLine_returns:
  assumes "series \<noteq> []"
    and total: "\<And>y. \<exists>t. intermediateTemp regression currentYear series modelType y = Inr t"
    and target: "intermediateTemp regression currentYear series modelType targetYear
                   = Inr predictionTemp"
  shows "\<exists>pl. generatePredictionLine regression currentYear series targetYear predictionTemp
                 modelType = Some (Inr pl) \<and>
           years pl \<noteq> [] \<and> length (years pl) = length (temps pl) \<and>
           hd (years pl) = year (last series) \<and>
           hd (temps pl) = Fin (five_year_smooth (last series)) \<and>
           last (years pl) = targetYear \<and> last (temps pl) = predictionTemp"
proof -
  let ?last = "series ! (length series - 1)"
  let ?line = "\<lparr>years = [year ?last], temps = [Fin (five_year_smooth ?last)]\<rparr>"
  let ?step = "\<lceil>real_of_int (targetYear - year ?last) / 5\<rceil>"
  have l: "?last = last series" using assms(1) by (simp add: last_conv_nth)
  show ?thesis
  proof (cases "?step \<le> 0 \<or> targetYear \<le> year ?last")
    case True
    then show ?thesis
      using assms(1) l by (simp add: generatePredictionLine_def Let_def)
  next
    case False
    then have step: "0 < ?step" by simp
    obtain line' where line':
      "predictionLoop (intermediateTemp regression currentYear series modelType) predictionTemp
         targetYear ?step (year ?last + ?step) ?line = Some (Inr line')"
      "length (years line') = length (temps line')" "years line' \<noteq> []"
      "hd (years line') = hd (years ?line)" "hd (temps line') = hd (temps ?line)"
      "last (years line') = targetYear \<longrightarrow> last (temps line') = predictionTemp"
      using predictionLoop_returns
        [where model = "intermediateTemp regression currentYear series modelType"
           and predictionYear = targetYear and predictionTemp = predictionTemp
           and yearStep = ?step and line = ?line and yr = "year ?last + ?step"]
        step total target
      by auto
    have tne: "temps line' \<noteq> []" using line'(2,3) by auto
    have n: "years line' ! (length (years line') - 1) = last (years line')"
      using line'(3) by (simp add: last_conv_nth)
    show ?thesis
      using False assms(1) line' tne l n
      by (simp add: generatePredictionLine_def Let_def)
  qed
qed

subsection \<open>The plausibility check\<close>

lemma margin_eq: "margin currentYear targetYear = Fin (spec_margin currentYear targetYear)"
  by (simp add: margin_def spec_margin_def Let_def)

lemma outOfRange_Fin:
  "series \<noteq> [] \<Longrightarrow>
     outOfRange currentYear series targetYear (Fin p) \<longleftrightarrow>
     \<not> spec_accepts currentYear series targetYear p"
  by (auto simp: outOfRange_def Let_def margin_eq Math_max_list_Fin Math_min_list_Fin
      spec_accepts_def)

lemma outOfRange_NaN: "\<not> outOfRange currentYear series targetYear NaN"
  by (simp add: outOfRange_def Let_def)

lemma outOfRange_empty: "outOfRange currentYear [] targetYear (Fin 0)"
  by (simp add: outOfRange_def Let_def margin_eq Math_max_list_def Math_min_list_def)

text \<open>
  For predictions that are numbers the check is the one of the specification: acceptance
  iff \<open>minTemp - margin \<le> p \<le> maxTemp + margin\<close>. The margin is not negative unless the
  target year lies more than 30 years in the past; then \<open>maxTemp + margin\<close> is accepted and
  one unit above is rejected.
\<close>

lemma plausibility_guard_numbers:
  assumes "series \<noteq> []"
  shows "\<not> outOfRange currentYear series targetYear (Fin p) \<longleftrightarrow>
           spec_accepts currentYear series targetYear p"
  using assms by (simp add: outOfRange_Fin)

lemma plausibility_guard_boundary:
  assumes "series \<noteq> []" and "- 30 \<le> targetYear - currentYear"
  shows "\<not> outOfRange currentYear series targetYear
             (Fin (Max (annual_mean ` set series) + spec_margin currentYear targetYear))"
    and "outOfRange currentYear series targetYear
             (Fin (Max (annual_mean ` set series) + spec_margin currentYear targetYear + 1))"
proof -
  have "- 30 \<le> real_of_int (targetYear - currentYear)"
    using assms(2) by linarith
  then have "0 \<le> 3 / 2 + real_of_int (targetYear - currentYear) / 20"
    by (simp add: field_simps)
  then have "0 \<le> spec_margin currentYear targetYear"
    by (simp add: spec_margin_def min_def)
  moreover have "Min (annual_mean ` set series) \<le> Max (annual_mean ` set series)"
  proof -
    have "annual_mean (hd series) \<in> annual_mean ` set series" using assms(1) by simp
    then have "Min (annual_mean ` set series) \<le> annual_mean (hd series)"
      and "annual_mean (hd series) \<le> Max (annual_mean ` set series)"
      by (simp_all del: hd_in_set)
    then show ?thesis by (rule order_trans)
  qed
  ultimately have "spec_accepts currentYear series targetYear
      (Max (annual_mean ` set series) + spec_margin currentYear targetYear)"
    unfolding spec_accepts_def by linarith
  then show "\<not> outOfRange currentYear series targetYear
             (Fin (Max (annual_mean ` set series) + spec_margin currentYear targetYear))"
    using assms(1) by (simp add: outOfRange_Fin)
  show "outOfRange currentYear series targetYear
             (Fin (Max (annual_mean ` set series) + spec_margin currentYear targetYear + 1))"
    using assms(1) by (simp add: outOfRange_Fin spec_accepts_def)
qed

subsection \<open>The outcomes of a run\<close>

lemma selectedPrediction_intermediateTemp:
  assumes "selectedPrediction regression currentYear series model y = Inr (p, ds)"
  shows "intermediateTemp regression currentYear series model y = Inr p"
  using assms
  by (auto simp: selectedPrediction_def intermediateTemp_def Let_def
      split: if_splits sum.splits)

lemma selectedPrediction_any_year:
  assumes "selectedPrediction regression currentYear series model y = Inr (p, ds)"
  shows "\<exists>t. intermediateTemp regression currentYear series model y' = Inr t"
proof (cases model)
  case Polynomial
  then obtain out where "calculatePolynomialRegression regression currentYear series y = Inr out"
    using assms by (auto simp: selectedPrediction_def split: sum.splits)
  then obtain out' where
    "calculatePolynomialRegression regression currentYear series y' = Inr out'"
    using calculatePolynomialRegression_any_year by blast
  then show ?thesis using Polynomial by (simp add: intermediateTemp_def)
next
  case MovingAverage
  then show ?thesis by (simp add: intermediateTemp_def)
next
  case Linear
  then obtain out where "calculateLinearRegression regression currentYear series y = Inr out"
    using assms by (auto simp: selectedPrediction_def split: sum.splits)
  then obtain out' where
    "calculateLinearRegression regression currentYear series y' = Inr out'"
    using calculateLinearRegression_any_year by blast
  then show ?thesis using Linear by (simp add: intermediateTemp_def)
qed

lemma selectedPrediction_empty:
  assumes "selectedPrediction regression currentYear [] model y = Inr (p, ds)"
  shows "p = Fin 0"
  using assms
  by (auto simp: selectedPrediction_def calculatePolynomialRegression_def
      calculateLinearRegression_def calculateMovingAverage_def Let_def split: if_splits)

lemma selectedPrediction_MovingAverage:
  "\<exists>ds. selectedPrediction regression currentYear series MovingAverage y
          = Inr (mavg_prediction (calculateMovingAverage series y), ds)"
  by (simp add: selectedPrediction_def Let_def)

lemma handleSimulation_invalid:
  "yearToPredict st < 2024 \<Longrightarrow>
     handleSimulation regression currentYear st =
       Some (st\<lparr>userInitiated := True, result := Some invalidYear, loading := False\<rparr>)"
  by (simp add: handleSimulation_def Let_def)

lemma handleSimulation_throws:
  "2024 \<le> yearToPredict st \<Longrightarrow>
   selectedPrediction regression currentYear (data st) (selectedModel st) (yearToPredict st)
     = Inl e \<Longrightarrow>
     handleSimulation regression currentYear st =
       Some (st\<lparr>userInitiated := True, result := Some calculationError, loading := False\<rparr>)"
  by (simp add: handleSimulation_def Let_def)

lemma handleSimulation_rejected:
  "2024 \<le> yearToPredict st \<Longrightarrow>
   selectedPrediction regression currentYear (data st) (selectedModel st) (yearToPredict st)
     = Inr (p, ds) \<Longrightarrow>
   outOfRange currentYear (data st) (yearToPredict st) p \<Longrightarrow>
     handleSimulation regression currentYear st =
       Some (st\<lparr>userInitiated := True, result := Some outOfRealisticRange, loading := False\<rparr>)"
  by (simp add: handleSimulation_def Let_def)

lemma handleSimulation_accepted:
  assumes "2024 \<le> yearToPredict st"
    and sel: "selectedPrediction regression currentYear (data st) (selectedModel st)
                (yearToPredict st) = Inr (p, ds)"
    and ok: "\<not> outOfRange currentYear (data st) (yearToPredict st) p"
  shows "\<exists>pl. handleSimulation regression currentYear st =
                Some (st\<lparr>userInitiated := True, predictionLine := pl,
                         result := Some \<lparr>prediction = p, details = ds, error = None\<rparr>,
                         loading := False\<rparr>) \<and>
           data st \<noteq> [] \<and> years pl \<noteq> [] \<and>
           length (years pl) = length (temps pl) \<and>
           hd (years pl) = year (last (data st)) \<and>
           hd (temps pl) = Fin (five_year_smooth (last (data st))) \<and>
           last (years pl) = yearToPredict st \<and> last (temps pl) = p"
proof -
  have ne: "data st \<noteq> []"
  proof
    assume e: "data st = []"
    then have "p = Fin 0" using sel selectedPrediction_empty by metis
    then show False using ok e outOfRange_empty by simp
  qed
  obtain pl where pl:
    "generatePredictionLine regression currentYear (data st) (yearToPredict st) p
       (selectedModel st) = Some (Inr pl)"
    "years pl \<noteq> []" "length (years pl) = length (temps pl)"
    "hd (years pl) = year (last (data st))"
    "hd (temps pl) = Fin (five_year_smooth (last (data st)))"
    "last (years pl) = yearToPredict st" "last (temps pl) = p"
    using generatePredictionLine_returns [OF ne selectedPrediction_any_year [OF sel]
        selectedPrediction_intermediateTemp [OF sel]]
    by blast
  show ?thesis
    using assms pl ne by (intro exI [of _ pl]) (simp add: handleSimulation_def Let_def)
qed

lemma error_outcomes [simp]:
  "error invalidYear = Some ''Please select a year from 2024 onwards for predictions.''"
  "error outOfRealisticRange = Some ''Prediction falls outside realistic range.''"
  "error calculationError = Some ''Calculation error occurred''"
  "prediction invalidYear = Fin 0" "prediction outOfRealisticRange = Fin 0"
  "prediction calculationError = Fin 0"
  by (simp_all add: invalidYear_def outOfRealisticRange_def calculationError_def)

text \<open>
  Whatever the fit, a Polynomial run for a target year before the current calendar year
  predicts \<open>NaN\<close>, and the run is accepted with that prediction.
\<close>

lemma polynomial_past_year_accepted:
  assumes "series \<noteq> []" and "3 \<le> length (equation (polynomialFit regression series))"
    and "2024 \<le> targetYear" and "targetYear < currentYear"
  shows "\<exists>st'. handleSimulation regression currentYear (initialState series Polynomial targetYear)
                  = Some st' \<and>
           map_option prediction (result st') = Some NaN \<and>
           map_option error (result st') = Some None"
proof -
  let ?st = "initialState series Polynomial targetYear"
  obtain out where
    "calculatePolynomialRegression regression currentYear series targetYear = Inr out"
    "poly_prediction out = NaN"
    using calculatePolynomialRegression_eq [OF assms(1,2), of currentYear targetYear] assms(4)
    by (auto simp: spec_dampeningFactor_past)
  then obtain ds where
    s: "selectedPrediction regression currentYear series Polynomial targetYear = Inr (NaN, ds)"
    by (simp add: selectedPrediction_def)
  have "\<exists>pl. handleSimulation regression currentYear ?st =
                Some (?st\<lparr>userInitiated := True, predictionLine := pl,
                          result := Some \<lparr>prediction = NaN, details = ds, error = None\<rparr>,
                          loading := False\<rparr>)"
    using handleSimulation_accepted [of ?st regression currentYear NaN ds] assms(3) s
    by (auto simp: initialState_def outOfRange_NaN)
  then show ?thesis by auto
qed

subsection \<open>Runs on the example series\<close>

lemma quadratic_fits [simp]:
  "polynomialFit quadraticRegression series = quadraticFit"
  "linearFit quadraticRegression series = quadraticLineFit"
  by (simp_all add: polynomialFit_def linearFit_def quadraticRegression_def)

lemma flat_fits [simp]:
  "polynomialFit flatRegression series =
     \<lparr>r2 = Fin 0, equation = [Fin 0, Fin 0, Fin 26], predict = (\<lambda>x. (x, Fin 26))\<rparr>"
  "linearFit flatRegression series =
     \<lparr>r2 = Fin 0, equation = [Fin 0, Fin 26], predict = (\<lambda>x. (x, Fin 26))\<rparr>"
  by (simp_all add: polynomialFit_def linearFit_def flatRegression_def)

lemma constant5_mavg: "mavg_prediction (calculateMovingAverage constant5 y) = Fin 26"
  using mavg_prediction_eq [of constant5 y]
  by (simp add: constant5_def spec_avgTemp_def spec_yearlyChange_def last5_def)

lemma steep5_mavg:
  "mavg_prediction (calculateMovingAverage steep5 y) = Fin (27 + real_of_int (y - 2022))"
  using mavg_prediction_eq [of steep5 y]
  by (simp add: steep5_def spec_avgTemp_def spec_yearlyChange_def spec_yearsAhead_def last5_def)

lemma constant5_outOfRange: "\<not> outOfRange 2024 constant5 2101 (Fin 26)"
  by (simp add: outOfRange_def Let_def margin_eq spec_margin_def constant5_def
      Math_max_list_def Math_min_list_def Math_max_def Math_min_def)

lemma constant5_line_2101:
  "generatePredictionLine regression 2024 constant5 2101 (Fin 26) MovingAverage =
     Some (Inr \<lparr>years = [2022, 2038, 2054, 2070, 2086, 2101],
                temps = [Fin 26, Fin 26, Fin 26, Fin 26, Fin 26, Fin 26]\<rparr>)"
proof -
  have i: "intermediateTemp regression 2024 constant5 MovingAverage y = Inr (Fin 26)" for y
    by (simp add: intermediateTemp_def constant5_mavg)
  have l: "length constant5 = 5" "constant5 ! 4 = \<lparr>year = 2022, annual_mean = 26, five_year_smooth = 26\<rparr>"
    by (simp_all add: constant5_def)
  show ?thesis
    by (simp add: generatePredictionLine_def Let_def l i predictionLoop.simps)
qed

lemma constant5_run_2101:
  "\<exists>ds. handleSimulation flatRegression 2024 (initialState constant5 MovingAverage 2101) =
     Some ((initialState constant5 MovingAverage 2101)
             \<lparr>userInitiated := True,
              predictionLine := \<lparr>years = [2022, 2038, 2054, 2070, 2086, 2101],
                                 temps = [Fin 26, Fin 26, Fin 26, Fin 26, Fin 26, Fin 26]\<rparr>,
              result := Some \<lparr>prediction = Fin 26, details = ds, error = None\<rparr>,
              loading := False\<rparr>)"
proof -
  obtain ds where "selectedPrediction flatRegression 2024 constant5 MovingAverage 2101
                     = Inr (Fin 26, ds)"
    using selectedPrediction_MovingAverage [of flatRegression 2024 constant5 2101]
    by (auto simp: constant5_mavg)
  then show ?thesis
    by (intro exI [of _ ds])
      (simp add: handleSimulation_def Let_def initialState_def constant5_outOfRange
        constant5_line_2101)
qed

lemma constant5_run_2030:
  "\<exists>ds. handleSimulation flatRegression 2024 (initialState constant5 MovingAverage 2030) =
     Some ((initialState constant5 MovingAverage 2030)
             \<lparr>userInitiated := True,
              predictionLine := \<lparr>years = [2022, 2024, 2026, 2028, 2030],
                                 temps = [Fin 26, Fin 26, Fin 26, Fin 26, Fin 26]\<rparr>,
              result := Some \<lparr>prediction = Fin 26, details = ds, error = None\<rparr>,
              loading := False\<rparr>)"
proof -
  obtain ds where s: "selectedPrediction flatRegression 2024 constant5 MovingAverage 2030
                     = Inr (Fin 26, ds)"
    using selectedPrediction_MovingAverage [of flatRegression 2024 constant5 2030]
    by (auto simp: constant5_mavg)
  have i: "intermediateTemp flatRegression 2024 constant5 MovingAverage y = Inr (Fin 26)" for y
    by (simp add: intermediateTemp_def constant5_mavg)
  have l: "length constant5 = 5"
    "constant5 ! 4 = \<lparr>year = 2022, annual_mean = 26, five_year_smooth = 26\<rparr>"
    by (simp_all add: constant5_def)
  have g: "generatePredictionLine flatRegression 2024 constant5 2030 (Fin 26) MovingAverage =
     Some (Inr \<lparr>years = [2022, 2024, 2026, 2028, 2030],
                temps = [Fin 26, Fin 26, Fin 26, Fin 26, Fin 26]\<rparr>)"
    by (simp add: generatePredictionLine_def Let_def l i predictionLoop.simps)
  have o: "\<not> outOfRange 2024 constant5 2030 (Fin 26)"
    by (simp add: outOfRange_def Let_def margin_eq spec_margin_def constant5_def
        Math_max_list_def Math_min_list_def Math_max_def Math_min_def)
  show ?thesis
    using s by (intro exI [of _ ds]) (simp add: handleSimulation_def Let_def initialState_def o g)
qed

lemma zigzag4_past_prediction:
  assumes "y < 2026"
  shows "\<exists>ds. selectedPrediction flatRegression 2026 zigzag4 Polynomial y = Inr (NaN, ds)"
proof -
  have n: "zigzag4 \<noteq> []" by (simp add: zigzag4_def)
  have e: "3 \<le> length (equation (polynomialFit flatRegression zigzag4))" by simp
  obtain out where
    "calculatePolynomialRegression flatRegression 2026 zigzag4 y = Inr out"
    "poly_prediction out = NaN"
    using calculatePolynomialRegression_eq [OF n e, where currentYear = 2026 and targetYear = y]
      assms
    by (auto simp: spec_dampeningFactor_past)
  then show ?thesis by (simp add: selectedPrediction_def)
qed

lemma zigzag4_line:
  "generatePredictionLine flatRegression 2026 zigzag4 2024 NaN Polynomial =
     Some (Inr \<lparr>years = [2022, 2023, 2024], temps = [Fin 26.1, NaN, NaN]\<rparr>)"
proof -
  have i: "intermediateTemp flatRegression 2026 zigzag4 Polynomial y = Inr NaN" if "y < 2026" for y
    using zigzag4_past_prediction [OF that] selectedPrediction_intermediateTemp by blast
  have l: "length zigzag4 = 4"
    "zigzag4 ! 3 = \<lparr>year = 2022, annual_mean = 26.1, five_year_smooth = 26.1\<rparr>"
    by (simp_all add: zigzag4_def)
  show ?thesis
    by (simp add: generatePredictionLine_def Let_def l i predictionLoop.simps)
qed

lemma steep5_first_run:
  "\<exists>ds. handleSimulation flatRegression 2024 (initialState steep5 MovingAverage 2024) =
     Some ((initialState steep5 MovingAverage 2024)
             \<lparr>userInitiated := True,
              predictionLine := \<lparr>years = [2022, 2023, 2024],
                                 temps = [Fin 29, Fin 28, Fin 29]\<rparr>,
              result := Some \<lparr>prediction = Fin 29, details = ds, error = None\<rparr>,
              loading := False\<rparr>)"
proof -
  obtain ds where s: "selectedPrediction flatRegression 2024 steep5 MovingAverage 2024
                     = Inr (Fin 29, ds)"
    using selectedPrediction_MovingAverage [of flatRegression 2024 steep5 2024]
    by (auto simp: steep5_mavg)
  have i: "intermediateTemp flatRegression 2024 steep5 MovingAverage y
             = Inr (Fin (27 + real_of_int (y - 2022)))" for y
    by (simp add: intermediateTemp_def steep5_mavg)
  have l: "length steep5 = 5"
    "steep5 ! 4 = \<lparr>year = 2022, annual_mean = 29, five_year_smooth = 29\<rparr>"
    by (simp_all add: steep5_def)
  have g: "generatePredictionLine flatRegression 2024 steep5 2024 (Fin 29) MovingAverage =
     Some (Inr \<lparr>years = [2022, 2023, 2024], temps = [Fin 29, Fin 28, Fin 29]\<rparr>)"
    by (simp add: generatePredictionLine_def Let_def l i predictionLoop.simps)
  have o: "\<not> outOfRange 2024 steep5 2024 (Fin 29)"
    by (simp add: outOfRange_def Let_def margin_eq spec_margin_def steep5_def
        Math_max_list_def Math_min_list_def Math_max_def Math_min_def)
  show ?thesis
    using s by (intro exI [of _ ds]) (simp add: handleSimulation_def Let_def initialState_def o g)
qed

lemma steep5_2100:
  "map_sum id fst (selectedPrediction flatRegression 2024 steep5 MovingAverage 2100)
     = Inr (Fin 105)"
  "outOfRange 2024 steep5 2100 (Fin 105)"
proof -
  show "map_sum id fst (selectedPrediction flatRegression 2024 steep5 MovingAverage 2100)
          = Inr (Fin 105)"
    using selectedPrediction_MovingAverage [of flatRegression 2024 steep5 2100]
    by (auto simp: steep5_mavg)
  show "outOfRange 2024 steep5 2100 (Fin 105)"
    by (simp add: outOfRange_def Let_def margin_eq spec_margin_def steep5_def
        Math_max_list_def Math_min_list_def Math_max_def Math_min_def)
qed

section \<open>Properties of the prediction engine\<close>

subsection \<open>Confidence of the three models\<close>

text \<open>
  C1, as the code has it. Only the Moving-Average model clamps its confidence, so that it
  lies in \<open>[0, 1]\<close> whenever the smooth values of the window are not all equal (their total
  sum of squares is not 0). The Polynomial and the Linear model return \<open>baseR2\<close> and
  \<open>r2\<close> times the decay multiplier, unclamped: the confidence lies in \<open>[0, 1]\<close> whenever
  \<open>baseR2\<close>, respectively the \<open>r2\<close> of the fit, does.
\<close>

theorem confidence_ranges:
  assumes "series \<noteq> []"
    and "3 \<le> length (equation (polynomialFit regression series))"
    and "2 \<le> length (equation (linearFit regression series))"
  shows "\<exists>p l. calculatePolynomialRegression regression currentYear series targetYear = Inr p \<and>
           calculateLinearRegression regression currentYear series targetYear = Inr l \<and>
           poly_r2 p = spec_baseR2 regression series
                         * Fin (spec_multiplier (targetYear - currentYear)) \<and>
           lin_r2 l = r2 (linearFit regression series)
                        * Fin (spec_multiplier (targetYear - currentYear)) \<and>
           (inUnit (spec_baseR2 regression series) \<longrightarrow> inUnit (poly_r2 p)) \<and>
           (inUnit (r2 (linearFit regression series)) \<longrightarrow> inUnit (lin_r2 l)) \<and>
           (ssTotal (map five_year_smooth (last5 series)) \<noteq> 0 \<longrightarrow>
              inUnit (mavg_r2 (calculateMovingAverage series targetYear)))"
proof -
  obtain p where p: "calculatePolynomialRegression regression currentYear series targetYear = Inr p"
      "poly_r2 p = spec_baseR2 regression series * Fin (spec_multiplier (targetYear - currentYear))"
    using calculatePolynomialRegression_eq [OF assms(1,2)] by blast
  obtain l where l: "calculateLinearRegression regression currentYear series targetYear = Inr l"
      "lin_r2 l = r2 (linearFit regression series) * Fin (spec_multiplier (targetYear - currentYear))"
    using calculateLinearRegression_eq [OF assms(1,3)] by blast
  have m: "0 \<le> spec_multiplier (targetYear - currentYear)"
      "spec_multiplier (targetYear - currentYear) \<le> 1"
    using spec_multiplier_bounds [of "targetYear - currentYear"] by simp_all
  have "inUnit (spec_baseR2 regression series) \<Longrightarrow> inUnit (poly_r2 p)"
    unfolding p(2) using m by (intro inUnit_times)
  moreover have "inUnit (r2 (linearFit regression series)) \<Longrightarrow> inUnit (lin_r2 l)"
    unfolding l(2) using m by (intro inUnit_times)
  ultimately show ?thesis
    using p l mavg_r2_inUnit [OF assms(1)] by blast
qed

text \<open>
  On the parabola of 2019 to 2022, run in 2024 for 2030: \<open>baseR2 = 1\<close>, the line has
  \<open>r2 = 20/21\<close> and the window is not constant; the three confidences lie in \<open>[0, 1]\<close>.
\<close>

theorem confidence_ranges_witness:
  "quadratic4 \<noteq> [] \<and> 3 \<le> length (equation (polynomialFit quadraticRegression quadratic4)) \<and>
   2 \<le> length (equation (linearFit quadraticRegression quadratic4)) \<and>
   inUnit (spec_baseR2 quadraticRegression quadratic4) \<and>
   inUnit (r2 (linearFit quadraticRegression quadratic4)) \<and>
   ssTotal (map five_year_smooth (last5 quadratic4)) \<noteq> 0 \<and>
   map_sum id (inUnit \<circ> poly_r2)
     (calculatePolynomialRegression quadraticRegression 2024 quadratic4 2030) = Inr True \<and>
   map_sum id (inUnit \<circ> lin_r2)
     (calculateLinearRegression quadraticRegression 2024 quadratic4 2030) = Inr True \<and>
   inUnit (mavg_r2 (calculateMovingAverage quadratic4 2030))"
proof -
  have n: "quadratic4 \<noteq> []" by (simp add: quadratic4_def)
  have e: "3 \<le> length (equation (polynomialFit quadraticRegression quadratic4))"
    by (simp add: quadraticFit_def)
  have f: "2 \<le> length (equation (linearFit quadraticRegression quadratic4))"
    by (simp add: quadraticLineFit_def)
  have b: "inUnit (spec_baseR2 quadraticRegression quadratic4)"
    by (simp add: spec_baseR2_def quadraticFit_def quadratic4_def recentWindow_def inUnit_def)
  have r: "inUnit (r2 (linearFit quadraticRegression quadratic4))"
    by (simp add: quadraticLineFit_def inUnit_def)
  have t: "ssTotal (map five_year_smooth (last5 quadratic4)) \<noteq> 0"
    by (simp add: ssTotal_def last5_def quadratic4_def power2_eq_square)
  show ?thesis
    using confidence_ranges [OF n e f, where currentYear = 2024 and targetYear = 2030] n e f b r t
    by auto
qed

text \<open>
  C1 fails as stated. On the zigzag series, whose least-squares parabola is the constant
  26 with \<open>r2 = 0\<close>, the Polynomial confidence in 2024 for 2030 is
  \<open>1 - (1 - 0) \<times> 3 / 1 = -2\<close>; on five years at 26.0 the Moving-Average confidence is
  \<open>NaN\<close>.
\<close>

theorem confidence_ranges_counterexample:
  "map_sum id poly_r2 (calculatePolynomialRegression flatRegression 2024 zigzag4 2030)
     = Inr (Fin (- 2)) \<and>
   \<not> inUnit (Fin (- 2)) \<and>
   mavg_r2 (calculateMovingAverage constant5 2030) = NaN \<and>
   \<not> inUnit NaN"
proof -
  have n: "zigzag4 \<noteq> []" by (simp add: zigzag4_def)
  have e: "3 \<le> length (equation (polynomialFit flatRegression zigzag4))" by simp
  have b: "spec_baseR2 flatRegression zigzag4 = Fin (- 2)"
    by (simp add: spec_baseR2_def zigzag4_def recentWindow_def)
  have m: "spec_multiplier (2030 - 2024) = 1" by (simp add: spec_multiplier_def)
  have c: "\<forall>d\<in>set (last5 constant5). five_year_smooth d = 26"
    by (simp add: constant5_def last5_def)
  have k: "constant5 \<noteq> []" by (simp add: constant5_def)
  show ?thesis
    using calculatePolynomialRegression_eq [OF n e, where currentYear = 2024 and targetYear = 2030]
      b m mavg_r2_constant_window [OF k c]
    by (auto simp: inUnit_def)
qed

subsection \<open>Validation of the target year\<close>

text \<open>
  C2, as the code has it. The run is rejected as an invalid year exactly for a target year
  below 2024: the outcome is then the fixed one with the message, a zero prediction and no
  use of a model, and the stored trend line is kept as it was. Every other year, also one
  beyond 2100, goes to the selected model, and the outcome is that of the model and of the
  plausibility check at that year.
\<close>

theorem year_validation:
  "\<exists>st'. handleSimulation regression currentYear st = Some st' \<and>
      result st' = Some
        (if yearToPredict st < 2024 then invalidYear
         else case selectedPrediction regression currentYear (data st) (selectedModel st)
                     (yearToPredict st) of
                Inl e \<Rightarrow> calculationError
              | Inr (p, ds) \<Rightarrow>
                  if outOfRange currentYear (data st) (yearToPredict st) p
                  then outOfRealisticRange
                  else \<lparr>prediction = p, details = ds, error = None\<rparr>) \<and>
      (yearToPredict st < 2024 \<longrightarrow>
         st' = st\<lparr>userInitiated := True, result := Some invalidYear, loading := False\<rparr> \<and>
         predictionLine st' = predictionLine st \<and>
         error invalidYear = Some ''Please select a year from 2024 onwards for predictions.'' \<and>
         prediction invalidYear = Fin 0)"
proof (cases "yearToPredict st < 2024")
  case True
  then show ?thesis by (simp add: handleSimulation_invalid)
next
  case False
  then have y: "2024 \<le> yearToPredict st" by simp
  show ?thesis
  proof (cases "selectedPrediction regression currentYear (data st) (selectedModel st)
                  (yearToPredict st)")
    case (Inl e)
    then show ?thesis using False by (simp add: handleSimulation_throws [OF y Inl])
  next
    case (Inr pd)
    obtain p ds where pd: "pd = (p, ds)" by (cases pd)
    show ?thesis
    proof (cases "outOfRange currentYear (data st) (yearToPredict st) p")
      case True
      then show ?thesis
        using False Inr pd handleSimulation_rejected [OF y Inr [unfolded pd] True] by simp
    next
      case o: False
      then show ?thesis
        using False Inr pd handleSimulation_accepted [OF y Inr [unfolded pd] o] by auto
    qed
  qed
qed

text \<open>
  For the year 2023 the run on five years at 26.0 ends with the invalid-year outcome and
  the empty trend line of the initial state.
\<close>

theorem year_validation_witness:
  "yearToPredict (initialState constant5 MovingAverage 2023) < 2024 \<and>
   handleSimulation flatRegression 2024 (initialState constant5 MovingAverage 2023) =
     Some ((initialState constant5 MovingAverage 2023)
             \<lparr>userInitiated := True, result := Some invalidYear, loading := False\<rparr>) \<and>
   map_option predictionLine
     (handleSimulation flatRegression 2024 (initialState constant5 MovingAverage 2023))
     = Some \<lparr>years = [], temps = []\<rparr>"
  using year_validation [of flatRegression 2024 "initialState constant5 MovingAverage 2023"]
  by (auto simp: initialState_def)

text \<open>
  C2 fails as stated. The year 2101 is not rejected: the Moving-Average model is run at
  2101 and its prediction is the outcome, with a trend line that ends in 2101. And after a
  run for 2030, a run for 2023 is rejected but the trend line of the earlier run stays.
\<close>

theorem year_validation_counterexample:
  "map_option (map_option prediction \<circ> result)
     (handleSimulation flatRegression 2024 (initialState constant5 MovingAverage 2101))
     = Some (Some (mavg_prediction (calculateMovingAverage constant5 2101))) \<and>
   map_option (map_option error \<circ> result)
     (handleSimulation flatRegression 2024 (initialState constant5 MovingAverage 2101))
     = Some (Some None) \<and>
   map_option (years \<circ> predictionLine)
     (handleSimulation flatRegression 2024 (initialState constant5 MovingAverage 2101))
     = Some [2022, 2038, 2054, 2070, 2086, 2101] \<and>
   map_option result
     (runAgainWithYear flatRegression 2024 2023
        (handleSimulation flatRegression 2024 (initialState constant5 MovingAverage 2030)))
     = Some (Some invalidYear) \<and>
   map_option (years \<circ> predictionLine)
     (runAgainWithYear flatRegression 2024 2023
        (handleSimulation flatRegression 2024 (initialState constant5 MovingAverage 2030)))
     = Some [2022, 2024, 2026, 2028, 2030]"
proof -
  obtain ds where a: "handleSimulation flatRegression 2024 (initialState constant5 MovingAverage 2101) =
     Some ((initialState constant5 MovingAverage 2101)
             \<lparr>userInitiated := True,
              predictionLine := \<lparr>years = [2022, 2038, 2054, 2070, 2086, 2101],
                                 temps = [Fin 26, Fin 26, Fin 26, Fin 26, Fin 26, Fin 26]\<rparr>,
              result := Some \<lparr>prediction = Fin 26, details = ds, error = None\<rparr>,
              loading := False\<rparr>)"
    using constant5_run_2101 by blast
  obtain ds' where b: "handleSimulation flatRegression 2024 (initialState constant5 MovingAverage 2030) =
     Some ((initialState constant5 MovingAverage 2030)
             \<lparr>userInitiated := True,
              predictionLine := \<lparr>years = [2022, 2024, 2026, 2028, 2030],
                                 temps = [Fin 26, Fin 26, Fin 26, Fin 26, Fin 26]\<rparr>,
              result := Some \<lparr>prediction = Fin 26, details = ds', error = None\<rparr>,
              loading := False\<rparr>)"
    using constant5_run_2030 by blast
  show ?thesis
    by (simp add: a b constant5_mavg runAgainWithYear_def handleSimulation_invalid)
qed

subsection \<open>Plausibility Guard\<close>

text \<open>
  C3. The plausibility check rejects a prediction \<open>p\<close> by the test
  \<^verbatim>\<open>p < allowedMin || p > allowedMax\<close>, which is false for \<open>NaN\<close>: a prediction that is not a
  number is accepted. The Polynomial model yields one whenever the target year lies before
  the current calendar year; run in 2026 for 2024, the outcome carries no error and the
  prediction \<open>NaN\<close>.
\<close>

theorem plausibility_guard_accepts_NaN:
  "map_sum id poly_prediction (calculatePolynomialRegression flatRegression 2026 zigzag4 2024)
     = Inr NaN \<and>
   \<not> outOfRange 2026 zigzag4 2024 NaN \<and>
   map_option (map_option prediction \<circ> result)
     (handleSimulation flatRegression 2026 (initialState zigzag4 Polynomial 2024))
     = Some (Some NaN) \<and>
   map_option (map_option error \<circ> result)
     (handleSimulation flatRegression 2026 (initialState zigzag4 Polynomial 2024))
     = Some (Some None)"
proof -
  obtain ds where s: "selectedPrediction flatRegression 2026 zigzag4 Polynomial 2024 = Inr (NaN, ds)"
    using zigzag4_past_prediction [of 2024] by auto
  have "intermediateTemp flatRegression 2026 zigzag4 Polynomial 2024 = Inr NaN"
    using s by (rule selectedPrediction_intermediateTemp)
  then have c: "map_sum id poly_prediction
                  (calculatePolynomialRegression flatRegression 2026 zigzag4 2024) = Inr NaN"
    by (simp add: intermediateTemp_def)
  have "handleSimulation flatRegression 2026 (initialState zigzag4 Polynomial 2024) =
          Some ((initialState zigzag4 Polynomial 2024)
             \<lparr>userInitiated := True,
              predictionLine := \<lparr>years = [2022, 2023, 2024], temps = [Fin 26.1, NaN, NaN]\<rparr>,
              result := Some \<lparr>prediction = NaN, details = ds, error = None\<rparr>,
              loading := False\<rparr>)"
    using s by (simp add: handleSimulation_def Let_def initialState_def outOfRange_NaN zigzag4_line)
  then show ?thesis
    using c by (simp add: outOfRange_NaN)
qed

subsection \<open>Rejected runs\<close>

text \<open>
  C4, as the code has it. A run whose prediction fails the plausibility check ends with
  the out-of-range outcome: the error message, a zero prediction, and nothing else is
  computed. No trend line is generated for the run and the stored one is not touched: it
  holds no points after the run only if it held none before.
\<close>

theorem rejected_run:
  assumes "2024 \<le> yearToPredict st"
    and "map_sum id fst
           (selectedPrediction regression currentYear (data st) (selectedModel st)
              (yearToPredict st)) = Inr p"
    and "outOfRange currentYear (data st) (yearToPredict st) p"
  shows "\<exists>st'. handleSimulation regression currentYear st = Some st' \<and>
           st' = st\<lparr>userInitiated := True, result := Some outOfRealisticRange,
                    loading := False\<rparr> \<and>
           error outOfRealisticRange = Some ''Prediction falls outside realistic range.'' \<and>
           prediction outOfRealisticRange = Fin 0 \<and>
           predictionLine st' = predictionLine st"
proof -
  obtain ds where
    "selectedPrediction regression currentYear (data st) (selectedModel st) (yearToPredict st)
       = Inr (p, ds)"
    using assms(2)
    by (cases "selectedPrediction regression currentYear (data st) (selectedModel st)
                 (yearToPredict st)") auto
  then show ?thesis
    using handleSimulation_rejected [OF assms(1) _ assms(3)] by simp
qed

text \<open>
  The first run on the rising series, for 2100: the Moving-Average prediction is 105, the
  run is rejected and the trend line is the empty one of the initial state.
\<close>

theorem rejected_run_witness:
  "2024 \<le> yearToPredict (initialState steep5 MovingAverage 2100) \<and>
   map_sum id fst (selectedPrediction flatRegression 2024 steep5 MovingAverage 2100)
     = Inr (Fin 105) \<and>
   outOfRange 2024 steep5 2100 (Fin 105) \<and>
   handleSimulation flatRegression 2024 (initialState steep5 MovingAverage 2100) =
     Some ((initialState steep5 MovingAverage 2100)
             \<lparr>userInitiated := True, result := Some outOfRealisticRange, loading := False\<rparr>) \<and>
   map_option predictionLine
     (handleSimulation flatRegression 2024 (initialState steep5 MovingAverage 2100))
     = Some \<lparr>years = [], temps = []\<rparr>"
  using rejected_run [of "initialState steep5 MovingAverage 2100" flatRegression 2024 "Fin 105"]
    steep5_2100
  by (auto simp: initialState_def)

text \<open>
  C4 fails as stated. On the rising series a run for 2024 is accepted and stores a trend
  line of three points; the next run, for 2100, is rejected, and the three points are
  still the stored trend line.
\<close>

theorem rejected_run_counterexample:
  "map_option result
     (runAgainWithYear flatRegression 2024 2100
        (handleSimulation flatRegression 2024 (initialState steep5 MovingAverage 2024)))
     = Some (Some outOfRealisticRange) \<and>
   map_option predictionLine
     (runAgainWithYear flatRegression 2024 2100
        (handleSimulation flatRegression 2024 (initialState steep5 MovingAverage 2024)))
     = Some \<lparr>years = [2022, 2023, 2024], temps = [Fin 29, Fin 28, Fin 29]\<rparr>"
proof -
  obtain ds where a:
    "handleSimulation flatRegression 2024 (initialState steep5 MovingAverage 2024) =
     Some ((initialState steep5 MovingAverage 2024)
             \<lparr>userInitiated := True,
              predictionLine := \<lparr>years = [2022, 2023, 2024],
                                 temps = [Fin 29, Fin 28, Fin 29]\<rparr>,
              result := Some \<lparr>prediction = Fin 29, details = ds, error = None\<rparr>,
              loading := False\<rparr>)"
    using steep5_first_run by blast
  obtain ds' where s:
    "selectedPrediction flatRegression 2024 steep5 MovingAverage 2100 = Inr (Fin 105, ds')"
    using selectedPrediction_MovingAverage [of flatRegression 2024 steep5 2100]
    by (auto simp: steep5_mavg)
  let ?st = "(initialState steep5 MovingAverage 2024)
               \<lparr>userInitiated := True,
                predictionLine := \<lparr>years = [2022, 2023, 2024],
                                   temps = [Fin 29, Fin 28, Fin 29]\<rparr>,
                result := Some \<lparr>prediction = Fin 29, details = ds, error = None\<rparr>,
                loading := False, yearToPredict := 2100\<rparr>"
  have b: "handleSimulation flatRegression 2024 ?st =
             Some (?st\<lparr>userInitiated := True, result := Some outOfRealisticRange,
                       loading := False\<rparr>)"
    by (rule handleSimulation_rejected [where p = "Fin 105" and ds = ds'])
      (simp_all add: initialState_def s steep5_2100)
  show ?thesis
    by (simp add: a runAgainWithYear_def b)
qed

subsection \<open>Prediction of the Polynomial model\<close>

text \<open>
  C5. For a non-empty series whose degree-2 fit carries its three coefficients, the
  Polynomial model returns, and its prediction is
  \<open>lastKnownSmooth + predictedChange \<times> dampeningFactor \<times> adjustmentFactor\<close>, with the fit
  taken over the last 30 records normalized to the first recent year, the raw prediction
  at the normalized target year and \<open>\<Delta>years = targetYear - currentYear\<close>. When the raw
  prediction is a number and the target year is not before the current year, this is the
  same formula on real numbers.
\<close>

theorem polynomial_prediction:
  assumes "series \<noteq> []" and "3 \<le> length (equation (polynomialFit regression series))"
  shows "\<exists>out. calculatePolynomialRegression regression currentYear series targetYear = Inr out \<and>
           poly_prediction out =
             lastKnownSmooth series
             + spec_predictedChange regression series targetYear
               * spec_dampeningFactor (targetYear - currentYear)
               * spec_adjustmentFactor (spec_predictedChange regression series targetYear) \<and>
           (\<forall>raw. spec_rawPrediction regression series targetYear = Fin raw \<and>
                  currentYear \<le> targetYear \<longrightarrow>
              poly_prediction out =
                Fin (spec_finalPrediction (five_year_smooth (last series)) raw
                       (targetYear - currentYear)))"
proof -
  obtain out where
    out: "calculatePolynomialRegression regression currentYear series targetYear = Inr out"
      "poly_prediction out =
             lastKnownSmooth series
             + spec_predictedChange regression series targetYear
               * spec_dampeningFactor (targetYear - currentYear)
               * spec_adjustmentFactor (spec_predictedChange regression series targetYear)"
    using calculatePolynomialRegression_eq [OF assms] by blast
  have "poly_prediction out =
          Fin (spec_finalPrediction (five_year_smooth (last series)) raw
                 (targetYear - currentYear))"
    if "spec_rawPrediction regression series targetYear = Fin raw" "currentYear \<le> targetYear"
    for raw
    using that
    by (simp add: out(2) spec_predictedChange_def lastKnownSmooth_def
        spec_dampeningFactor_future spec_adjustmentFactor_Fin spec_finalPrediction_def Let_def)
  then show ?thesis using out by blast
qed

text \<open>
  On the parabola \<open>26 + 0.05 x + 0.05 x\<^sup>2\<close> (years 2019 to 2022), in 2024 for 2024: the raw
  prediction is 27.5, the change 0.9, the dampening factor 1, the adjustment factor 0.91
  and the prediction \<open>26.6 + 0.9 \<times> 0.91 = 27.419\<close>.
\<close>

theorem polynomial_prediction_witness:
  "quadratic4 \<noteq> [] \<and> 3 \<le> length (equation (polynomialFit quadraticRegression quadratic4)) \<and>
   spec_rawPrediction quadraticRegression quadratic4 2024 = Fin 27.5 \<and> (2024::int) \<le> 2024 \<and>
   spec_finalPrediction (five_year_smooth (last quadratic4)) 27.5 (2024 - 2024) = 27.419 \<and>
   map_sum id poly_prediction
     (calculatePolynomialRegression quadraticRegression 2024 quadratic4 2024) = Inr (Fin 27.419)"
proof -
  have n: "quadratic4 \<noteq> []" by (simp add: quadratic4_def)
  have e: "3 \<le> length (equation (polynomialFit quadraticRegression quadratic4))"
    by (simp add: quadraticFit_def)
  have r: "spec_rawPrediction quadraticRegression quadratic4 2024 = Fin 27.5"
    by (simp add: spec_rawPrediction_def quadraticFit_def quadratic4_def recentWindow_def)
  have f: "spec_finalPrediction (five_year_smooth (last quadratic4)) 27.5 (2024 - 2024) = 27.419"
    by (simp add: spec_finalPrediction_def quadratic4_def)
  obtain out where
    o: "calculatePolynomialRegression quadraticRegression 2024 quadratic4 2024 = Inr out"
    and a: "\<forall>raw. spec_rawPrediction quadraticRegression quadratic4 2024 = Fin raw \<and>
                  (2024::int) \<le> 2024 \<longrightarrow>
              poly_prediction out =
                Fin (spec_finalPrediction (five_year_smooth (last quadratic4)) raw (2024 - 2024))"
    using polynomial_prediction [OF n e, where currentYear = 2024 and targetYear = 2024]
    by blast
  have "poly_prediction out = Fin 27.419"
    using a r f by (metis order_refl)
  then show ?thesis
    using n e r f o by simp
qed

subsection \<open>Confidence decay\<close>

text \<open>
  C6. For the Polynomial and the Linear model the confidence is the model's \<open>R\<^sup>2\<close> (adjusted
  for the Polynomial model) times the decay multiplier of \<open>yearsIntoFuture = targetYear -
  currentYear\<close>: 1 up to 15 years, so that the confidence is the raw value, and
  \<open>max(0.25, 1 - decay \<times> 0.75)\<close> beyond, which is 0.25 at 76 years.
\<close>

theorem confidence_decay:
  assumes "series \<noteq> []"
    and "3 \<le> length (equation (polynomialFit regression series))"
    and "2 \<le> length (equation (linearFit regression series))"
  shows "\<exists>p l. calculatePolynomialRegression regression currentYear series targetYear = Inr p \<and>
           calculateLinearRegression regression currentYear series targetYear = Inr l \<and>
           poly_r2 p = spec_baseR2 regression series
                         * Fin (spec_multiplier (targetYear - currentYear)) \<and>
           lin_r2 l = r2 (linearFit regression series)
                        * Fin (spec_multiplier (targetYear - currentYear)) \<and>
           (targetYear - currentYear \<le> 15 \<longrightarrow>
              spec_multiplier (targetYear - currentYear) = 1 \<and>
              poly_r2 p = spec_baseR2 regression series \<and>
              lin_r2 l = r2 (linearFit regression series)) \<and>
           spec_multiplier 76 = 0.25"
proof -
  obtain p where p: "calculatePolynomialRegression regression currentYear series targetYear = Inr p"
      "poly_r2 p = spec_baseR2 regression series * Fin (spec_multiplier (targetYear - currentYear))"
    using calculatePolynomialRegression_eq [OF assms(1,2)] by blast
  obtain l where l: "calculateLinearRegression regression currentYear series targetYear = Inr l"
      "lin_r2 l = r2 (linearFit regression series) * Fin (spec_multiplier (targetYear - currentYear))"
    using calculateLinearRegression_eq [OF assms(1,3)] by blast
  have "targetYear - currentYear \<le> 15 \<Longrightarrow> spec_multiplier (targetYear - currentYear) = 1"
    by (simp add: spec_multiplier_def)
  then show ?thesis
    using p l spec_multiplier_76 by auto
qed

text \<open>
  On the parabola of 2019 to 2022 (\<open>r2 = 1\<close> for the degree-2 fit, \<open>20/21\<close> for the line), run
  in 2024: for 2030, 6 years ahead, the confidences are the raw values; for 2100, 76 years
  ahead, they are multiplied by 0.25.
\<close>

theorem confidence_decay_witness:
  "quadratic4 \<noteq> [] \<and> 3 \<le> length (equation (polynomialFit quadraticRegression quadratic4)) \<and>
   2 \<le> length (equation (linearFit quadraticRegression quadratic4)) \<and>
   (2030::int) - 2024 \<le> 15 \<and>
   spec_baseR2 quadraticRegression quadratic4 = Fin 1 \<and>
   map_sum id poly_r2 (calculatePolynomialRegression quadraticRegression 2024 quadratic4 2030)
     = Inr (Fin 1) \<and>
   map_sum id lin_r2 (calculateLinearRegression quadraticRegression 2024 quadratic4 2030)
     = Inr (Fin (20 / 21)) \<and>
   map_sum id poly_r2 (calculatePolynomialRegression quadraticRegression 2024 quadratic4 2100)
     = Inr (Fin 0.25) \<and>
   map_sum id lin_r2 (calculateLinearRegression quadraticRegression 2024 quadratic4 2100)
     = Inr (Fin (20 / 21 * 0.25))"
proof -
  have n: "quadratic4 \<noteq> []" by (simp add: quadratic4_def)
  have e: "3 \<le> length (equation (polynomialFit quadraticRegression quadratic4))"
    by (simp add: quadraticFit_def)
  have f: "2 \<le> length (equation (linearFit quadraticRegression quadratic4))"
    by (simp add: quadraticLineFit_def)
  have b: "spec_baseR2 quadraticRegression quadratic4 = Fin 1"
    by (simp add: spec_baseR2_def quadraticFit_def quadratic4_def recentWindow_def)
  have r: "r2 quadraticLineFit = Fin (20 / 21)"
    by (simp add: quadraticLineFit_def)
  show ?thesis
    using confidence_decay [OF n e f, where currentYear = 2024 and targetYear = 2030]
      confidence_decay [OF n e f, where currentYear = 2024 and targetYear = 2100]
      n e f b r
    by auto
qed

subsection \<open>Prediction of the Moving-Average model\<close>

text \<open>
  C7. For a series of at least 5 records the Moving-Average prediction is
  \<open>avgTemp + yearlyChange \<times> yearsAhead\<close>: \<open>avgTemp\<close> the mean smooth value of the last 5
  records, \<open>yearlyChange\<close> the difference of the last and the first of them over 4, and
  \<open>yearsAhead\<close> the target year minus the last historical year.
\<close>

theorem moving_average_prediction:
  assumes "5 \<le> length series"
  shows "length (last5 series) = 5 \<and>
         mavg_prediction (calculateMovingAverage series targetYear) =
           Fin (spec_avgTemp series + spec_yearlyChange series
                  * real_of_int (spec_yearsAhead series targetYear))"
proof -
  from assms have "series \<noteq> []" by auto
  then show ?thesis
    using assms by (simp add: mavg_prediction_eq last5_def)
qed

text \<open>
  The scenario of C7: smooth values 25.0, 25.1, 25.2, 25.3, 25.4 and 3 years ahead give
  the mean 25.2, the yearly change 0.1 and the prediction 25.5.
\<close>

theorem moving_average_prediction_witness:
  "5 \<le> length scenario5 \<and> spec_avgTemp scenario5 = 25.2 \<and> spec_yearlyChange scenario5 = 0.1 \<and>
   spec_yearsAhead scenario5 2025 = 3 \<and>
   mavg_prediction (calculateMovingAverage scenario5 2025) = Fin 25.5"
  using moving_average_prediction [of scenario5 2025]
  by (simp add: scenario5_def spec_avgTemp_def spec_yearlyChange_def spec_yearsAhead_def
      last5_def)

subsection \<open>Trend line\<close>

text \<open>
  C8. The handler always returns, and after every accepted run (an outcome without error)
  the series is non-empty and the stored trend line has as many years as temperatures,
  starts at the last historical year with its smooth value, and ends at the target year
  with the final prediction.
\<close>

theorem trend_line_shape:
  "\<exists>st'. handleSimulation regression currentYear st = Some st' \<and>
      (\<forall>r. result st' = Some r \<and> error r = None \<longrightarrow>
         data st \<noteq> [] \<and>
         length (years (predictionLine st')) = length (temps (predictionLine st')) \<and>
         hd (years (predictionLine st')) = year (last (data st)) \<and>
         hd (temps (predictionLine st')) = Fin (five_year_smooth (last (data st))) \<and>
         last (years (predictionLine st')) = yearToPredict st \<and>
         last (temps (predictionLine st')) = prediction r)"
proof (cases "yearToPredict st < 2024")
  case True
  then show ?thesis by (simp add: handleSimulation_invalid)
next
  case False
  then have y: "2024 \<le> yearToPredict st" by simp
  show ?thesis
  proof (cases "selectedPrediction regression currentYear (data st) (selectedModel st)
                  (yearToPredict st)")
    case (Inl e)
    then show ?thesis by (simp add: handleSimulation_throws [OF y Inl])
  next
    case (Inr pd)
    obtain p ds where pd: "pd = (p, ds)" by (cases pd)
    show ?thesis
    proof (cases "outOfRange currentYear (data st) (yearToPredict st) p")
      case True
      then show ?thesis
        using handleSimulation_rejected [OF y Inr [unfolded pd] True] by simp
    next
      case o: False
      then show ?thesis
        using handleSimulation_accepted [OF y Inr [unfolded pd] o] by auto
    qed
  qed
qed

text \<open>
  Five years at 26.0, Moving-Average, target 2101: the step is 16 years, the loop stops at
  2086 and the final point \<open>(2101, 26)\<close> is added.
\<close>

theorem trend_line_shape_witness:
  "map_option (map_option error \<circ> result)
     (handleSimulation flatRegression 2024 (initialState constant5 MovingAverage 2101))
     = Some (Some None) \<and>
   map_option predictionLine
     (handleSimulation flatRegression 2024 (initialState constant5 MovingAverage 2101))
     = Some \<lparr>years = [2022, 2038, 2054, 2070, 2086, 2101],
             temps = [Fin 26, Fin 26, Fin 26, Fin 26, Fin 26, Fin 26]\<rparr> \<and>
   map_option (last \<circ> years \<circ> predictionLine)
     (handleSimulation flatRegression 2024 (initialState constant5 MovingAverage 2101))
     = Some (yearToPredict (initialState constant5 MovingAverage 2101)) \<and>
   map_option (last \<circ> temps \<circ> predictionLine)
     (handleSimulation flatRegression 2024 (initialState constant5 MovingAverage 2101))
     = map_option (prediction \<circ> the \<circ> result)
         (handleSimulation flatRegression 2024 (initialState constant5 MovingAverage 2101))"
proof -
  obtain ds where a:
    "handleSimulation flatRegression 2024 (initialState constant5 MovingAverage 2101) =
     Some ((initialState constant5 MovingAverage 2101)
             \<lparr>userInitiated := True,
              predictionLine := \<lparr>years = [2022, 2038, 2054, 2070, 2086, 2101],
                                 temps = [Fin 26, Fin 26, Fin 26, Fin 26, Fin 26, Fin 26]\<rparr>,
              result := Some \<lparr>prediction = Fin 26, details = ds, error = None\<rparr>,
              loading := False\<rparr>)"
    using constant5_run_2101 by blast
  show ?thesis
    using trend_line_shape [of flatRegression 2024 "initialState constant5 MovingAverage 2101"]
    unfolding a by (simp add: initialState_def)
qed

subsection \<open>Goodness of fit on a constant window\<close>

text \<open>
  C9. On a window whose smooth values are all equal the total sum of squares is 0 and the
  Moving-Average confidence is \<open>1 - 0 / 0\<close> clamped by \<^verbatim>\<open>Math.max\<close>/\<^verbatim>\<open>Math.min\<close>, that is
  \<open>NaN\<close>: the division is not guarded. Evaluated on five years at 26.0.
\<close>

theorem moving_average_constant_window_confidence:
  "ssTotal (map five_year_smooth (last5 constant5)) = 0 \<and>
   mavg_r2 (calculateMovingAverage constant5 2030) = NaN"
proof -
  have c: "\<forall>d\<in>set (last5 constant5). five_year_smooth d = 26"
    by (simp add: constant5_def last5_def)
  have n: "constant5 \<noteq> []" by (simp add: constant5_def)
  have "ssTotal (map five_year_smooth (last5 constant5)) = 0"
    by (rule ssTotal_constant [where c = 26]) (use c in simp)
  then show ?thesis
    using mavg_r2_constant_window [OF n c] by simp
qed

subsection \<open>Degrees-of-freedom adjustment\<close>

text \<open>
  C10. The Polynomial confidence is \<open>baseR2 \<times> multiplier\<close> with
  \<open>baseR2 = 1 - (1 - r2)(n - 1)/(n - 2 - 1)\<close>, \<open>n\<close> the number of records of the window, and
  the division is not guarded: with exactly 3 records the confidence is not a finite
  number, whatever the fit. In general it is finite exactly when the \<open>r2\<close> of the fit is
  finite and \<open>n \<noteq> 3\<close>; so, the fit on fewer than 3 records being degenerate (no finite
  \<open>r2\<close>), a finite confidence requires at least 4 records.
\<close>

theorem polynomial_confidence_finite:
  assumes "series \<noteq> []" and "3 \<le> length (equation (polynomialFit regression series))"
  shows "\<exists>out. calculatePolynomialRegression regression currentYear series targetYear = Inr out \<and>
           poly_r2 out = spec_baseR2 regression series
                           * Fin (spec_multiplier (targetYear - currentYear)) \<and>
           (length (recentWindow series) = 3 \<longrightarrow> \<not> isFinite (poly_r2 out)) \<and>
           (isFinite (poly_r2 out) \<longleftrightarrow>
              isFinite (r2 (polynomialFit regression series)) \<and> length (recentWindow series) \<noteq> 3) \<and>
           ((length (recentWindow series) < 3 \<longrightarrow> \<not> isFinite (r2 (polynomialFit regression series)))
              \<longrightarrow> isFinite (poly_r2 out) \<longrightarrow> 4 \<le> length (recentWindow series))"
proof -
  obtain out where
    out: "calculatePolynomialRegression regression currentYear series targetYear = Inr out"
      "poly_r2 out = spec_baseR2 regression series * Fin (spec_multiplier (targetYear - currentYear))"
    using calculatePolynomialRegression_eq [OF assms] by blast
  have "0 < length (recentWindow series)"
    using assms(1) slice_last_nonempty [of series 30] by (simp add: recentWindow_slice)
  then have fin: "isFinite (poly_r2 out) \<longleftrightarrow>
      isFinite (r2 (polynomialFit regression series)) \<and> length (recentWindow series) \<noteq> 3"
    using isFinite_baseR2 [of "length (recentWindow series)" "r2 (polynomialFit regression series)"]
    by (simp add: out(2) spec_baseR2_def)
  then show ?thesis
    using out by (intro exI [of _ out]) auto
qed

text \<open>
  Three records on the parabola (2019 to 2021) with their exact fit: the confidence is
  \<open>1 - 0 / 0\<close>, not a number. With the fourth record (2022) it is 1.
\<close>

theorem polynomial_confidence_finite_witness:
  "butlast quadratic4 \<noteq> [] \<and>
   3 \<le> length (equation (polynomialFit quadraticRegression (butlast quadratic4))) \<and>
   length (recentWindow (butlast quadratic4)) = 3 \<and>
   map_sum id poly_r2
     (calculatePolynomialRegression quadraticRegression 2024 (butlast quadratic4) 2030) = Inr NaN \<and>
   quadratic4 \<noteq> [] \<and>
   \<not> length (recentWindow quadratic4) < 3 \<and>
   isFinite (r2 (polynomialFit quadraticRegression quadratic4)) \<and>
   length (recentWindow quadratic4) = 4 \<and>
   map_sum id (isFinite \<circ> poly_r2)
     (calculatePolynomialRegression quadraticRegression 2024 quadratic4 2030) = Inr True"
proof -
  have n3: "butlast quadratic4 \<noteq> []" and n4: "quadratic4 \<noteq> []"
    by (simp_all add: quadratic4_def)
  have e: "3 \<le> length (equation (polynomialFit quadraticRegression xs))" for xs
    by (simp add: quadraticFit_def)
  have w3: "length (recentWindow (butlast quadratic4)) = 3"
    and w4: "length (recentWindow quadratic4) = 4"
    by (simp_all add: quadratic4_def recentWindow_def)
  have b3: "spec_baseR2 quadraticRegression (butlast quadratic4) = NaN"
    by (simp add: spec_baseR2_def w3) (simp add: quadraticFit_def)
  have r: "isFinite (r2 (polynomialFit quadraticRegression quadratic4))"
    by (simp add: quadraticFit_def)
  show ?thesis
    using polynomial_confidence_finite [OF n3 e, where currentYear = 2024 and targetYear = 2030]
      polynomial_confidence_finite [OF n4 e, where currentYear = 2024 and targetYear = 2030]
      n3 n4 e w3 w4 b3 r
    by auto
qed

end
